theory Spec2Isabelle
  imports Complex_Main
begin

section \<open>Python values and the operations the clients apply to them\<close>

text \<open>
  The clients read the parsed response bodies of a GraphQL service. A parsed body is what
  Python's \<open>json.loads\<close> returns: \<open>None\<close>, a bool, a number, a str, a list or a dict.
  \<open>JNull\<close> is Python's \<open>None\<close>. A dict is an association list in insertion order; a lookup
  takes the first binding of a key.
\<close>

datatype json =
    JNull
  | JBool bool
  | JInt int
  | JFloat rat
  | JStr string
  | JArr "json list"
  | JObj "(string \<times> json) list"

text \<open>The exceptions the modelled code can raise; \<open>HTTPError\<close> carries the status,
  \<open>GoogleAPIError\<close> is a failure of the warehouse client.\<close>

datatype py_error =
    KeyError
  | TypeError
  | AttributeError
  | JSONDecodeError
  | ConnectionError
  | HTTPError int
  | GoogleAPIError
  | Exception string

text \<open>Truth value of an object, as \<open>if x:\<close>, \<open>not x\<close> and \<open>x or y\<close> test it.\<close>

fun truthy :: "json \<Rightarrow> bool" where
  "truthy JNull = False"
| "truthy (JBool b) = b"
| "truthy (JInt i) = (i \<noteq> 0)"
| "truthy (JFloat q) = (q \<noteq> 0)"
| "truthy (JStr s) = (s \<noteq> [])"
| "truthy (JArr xs) = (xs \<noteq> [])"
| "truthy (JObj kvs) = (kvs \<noteq> [])"

text \<open>\<open>d[k]\<close> with a str key: only a dict accepts it, and a missing key raises.\<close>

fun subscript :: "json \<Rightarrow> string \<Rightarrow> py_error + json" where
  "subscript (JObj kvs) k = (case map_of kvs k of None \<Rightarrow> Inl KeyError | Some v \<Rightarrow> Inr v)"
| "subscript _ k = Inl TypeError"

text \<open>\<open>d.get(k, default)\<close>: a method of dicts only.\<close>

fun dict_get :: "json \<Rightarrow> string \<Rightarrow> json \<Rightarrow> py_error + json" where
  "dict_get (JObj kvs) k dflt = (case map_of kvs k of None \<Rightarrow> Inr dflt | Some v \<Rightarrow> Inr v)"
| "dict_get _ k dflt = Inl AttributeError"

fun startswith :: "string \<Rightarrow> string \<Rightarrow> bool" where
  "startswith s [] = True"
| "startswith [] (p # ps) = False"
| "startswith (c # cs) (p # ps) = (c = p \<and> startswith cs ps)"

text \<open>\<open>sub in s\<close> on two strs: \<open>sub\<close> occurs in \<open>s\<close>.\<close>

fun contains :: "string \<Rightarrow> string \<Rightarrow> bool" where
  "contains [] sub = (sub = [])"
| "contains (c # cs) sub = (startswith (c # cs) sub \<or> contains cs sub)"

text \<open>\<open>k in x\<close> with a str \<open>k\<close>: a key of a dict, an element of a list, a substring of a str.\<close>

fun py_in :: "string \<Rightarrow> json \<Rightarrow> py_error + bool" where
  "py_in k (JObj kvs) = Inr (k \<in> set (map fst kvs))"
| "py_in k (JArr xs) = Inr (JStr k \<in> set xs)"
| "py_in k (JStr s) = Inr (contains s k)"
| "py_in k _ = Inl TypeError"

text \<open>Iterating an object (\<open>list.extend\<close>, \<open>for\<close>, \<open>enumerate\<close>): a dict gives its keys,
  a str its characters.\<close>

fun iterate :: "json \<Rightarrow> py_error + json list" where
  "iterate (JArr xs) = Inr xs"
| "iterate (JObj kvs) = Inr (map (\<lambda>kv. JStr (fst kv)) kvs)"
| "iterate (JStr s) = Inr (map (\<lambda>c. JStr [c]) s)"
| "iterate _ = Inl TypeError"

fun py_len :: "json \<Rightarrow> py_error + nat" where
  "py_len (JArr xs) = Inr (length xs)"
| "py_len (JObj kvs) = Inr (length kvs)"
| "py_len (JStr s) = Inr (length s)"
| "py_len _ = Inl TypeError"

text \<open>\<open>x[:n]\<close>: a str and a list can be sliced; anything else raises.\<close>

fun slice_to :: "nat \<Rightarrow> json \<Rightarrow> py_error + json" where
  "slice_to n (JStr s) = Inr (JStr (take n s))"
| "slice_to n (JArr xs) = Inr (JArr (take n xs))"
| "slice_to n _ = Inl TypeError"

text \<open>\<open>s.lower()\<close>. A \<open>string\<close> is a list of bytes: the letters \<open>A\<close> to \<open>Z\<close> are
  lowered and every other byte is kept, which is \<open>str.lower\<close> on ASCII text.\<close>

definition lower_char :: "char \<Rightarrow> char" where
  "lower_char c =
     (let n = (of_char c :: nat) in if 65 \<le> n \<and> n \<le> 90 then char_of (n + 32) else c)"

definition lower :: "string \<Rightarrow> string" where
  "lower s = map lower_char s"

definition digit_char :: "nat \<Rightarrow> char" where
  "digit_char d = char_of (48 + d)"

fun nat_digits :: "nat \<Rightarrow> string" where
  "nat_digits n = (if n < 10 then [digit_char n] else nat_digits (n div 10) @ [digit_char (n mod 10)])"

declare nat_digits.simps [simp del]

text \<open>\<open>str(i)\<close> and \<open>f"{i}"\<close> of an int.\<close>

definition int_str :: "int \<Rightarrow> string" where
  "int_str i = (if i < 0 then CHR ''-'' # nat_digits (nat (- i)) else nat_digits (nat i))"

text \<open>\<open>f"{i:03d}"\<close>: zero padding to width three, the sign counted in the width.\<close>

definition fmt_03d :: "int \<Rightarrow> string" where
  "fmt_03d i =
     (if i < 0 then CHR ''-'' # replicate (2 - length (nat_digits (nat (- i)))) CHR ''0'' @ nat_digits (nat (- i))
      else replicate (3 - length (nat_digits (nat i))) CHR ''0'' @ nat_digits (nat i))"

text \<open>
  The text of a value as Python's library prints it is taken as given: \<open>json_dumps\<close> is
  \<open>json.dumps\<close>, \<open>py_str\<close> is \<open>str\<close> (also what an f-string inserts) and \<open>py_int\<close> is
  \<open>int\<close> on a str, \<open>None\<close> where it raises \<open>ValueError\<close>; \<open>exc_str\<close> is \<open>str(e)\<close> of an
  exception.
\<close>

record pylib =
  json_dumps :: "json \<Rightarrow> string"
  py_str :: "json \<Rightarrow> string"
  py_int :: "string \<Rightarrow> int option"
  exc_str :: "py_error \<Rightarrow> string"

section \<open>The failure notifier (error\_notifier.py)\<close>

record chat_message =
  thread :: string
  body :: string
  unique_by :: string

text \<open>
  \<open>messenger\<close> is \<open>None\<close> when the messaging client could not be set up; otherwise it tells
  for each message whether sending it succeeds (\<open>True\<close>) or raises. \<open>sent\<close> lists the
  messages handed to the messenger, oldest first.
\<close>

record notifier =
  messenger :: "(chat_message \<Rightarrow> bool) option"
  sent :: "chat_message list"

definition GLUE_THREAD_ID :: string where
  "GLUE_THREAD_ID = ''thr_37BrUUDCQUG1ZVVwKdm5Oi1Un1M''"

definition auth_failure_message :: "string option \<Rightarrow> string" where
  "auth_failure_message error_details =
     ''Harmonic API authentication failed. The Bearer token may need to be refreshed.'' @ [CHR 0x0A, CHR 0x0A] @
     ''Refresh at: https://console.harmonic.ai'' @
     (case error_details of
        None \<Rightarrow> []
      | Some d \<Rightarrow> if d = [] then [] else [CHR 0x0A, CHR 0x0A] @ ''Error: '' @ d)"

definition notify_auth_failure :: "string \<Rightarrow> string option \<Rightarrow> notifier \<Rightarrow> bool \<times> notifier" where
  "notify_auth_failure today error_details n =
     (case messenger n of
        None \<Rightarrow> (False, n)
      | Some send \<Rightarrow>
          (let m = \<lparr>thread = GLUE_THREAD_ID, body = auth_failure_message error_details,
                    unique_by = ''harmonic_auth_error_'' @ today\<rparr>
           in (send m, n\<lparr>sent := sent n @ [m]\<rparr>)))"

definition api_error_message :: "string \<Rightarrow> string option \<Rightarrow> string" where
  "api_error_message error_type error_details =
     ''Harmonic API error: '' @ error_type @
     (case error_details of
        None \<Rightarrow> []
      | Some d \<Rightarrow> if d = [] then [] else [CHR 0x0A, CHR 0x0A] @ ''Details: '' @ d)"

definition notify_api_error :: "string \<Rightarrow> string \<Rightarrow> string option \<Rightarrow> notifier \<Rightarrow> bool \<times> notifier" where
  "notify_api_error today error_type error_details n =
     (case messenger n of
        None \<Rightarrow> (False, n)
      | Some send \<Rightarrow>
          (let m = \<lparr>thread = GLUE_THREAD_ID, body = api_error_message error_type error_details,
                    unique_by = ''harmonic_api_error_'' @ today\<rparr>
           in (send m, n\<lparr>sent := sent n @ [m]\<rparr>)))"

text \<open>The messages of the auth-failure category among those sent.\<close>

definition auth_notifications :: "notifier \<Rightarrow> chat_message list" where
  "auth_notifications n = filter (\<lambda>m. startswith (unique_by m) ''harmonic_auth_error_'') (sent n)"


section \<open>The paginated client (client.py)\<close>

text \<open>Running a statement after another one that may raise.\<close>

definition bind_err :: "'e + 'a \<Rightarrow> ('a \<Rightarrow> 'e + 'b) \<Rightarrow> 'e + 'b" where
  "bind_err m f = (case m of Inl e \<Rightarrow> Inl e | Inr a \<Rightarrow> f a)"

text \<open>\<open>d[k] = v\<close> on the bindings of a dict: a known key keeps its place, a new one goes last.\<close>

fun dict_set :: "string \<Rightarrow> json \<Rightarrow> (string \<times> json) list \<Rightarrow> (string \<times> json) list" where
  "dict_set k v [] = [(k, v)]"
| "dict_set k v (p # ps) = (if fst p = k then (k, v) # ps else p # dict_set k v ps)"

text \<open>
  What \<open>requests.post\<close> followed by \<open>response.json()\<close> can give: no response at all, or a
  response with its status code and its parsed body (\<open>None\<close> where the body is not JSON and
  \<open>response.json()\<close> raises).
\<close>

datatype http_outcome = ConnectionFailed | Response int "json option"

text \<open>
  The surroundings of one run. \<open>post k p\<close> is the outcome of the \<open>k\<close>-th request of the run,
  sent with payload \<open>p\<close> (the loop sends one request per page, so \<open>k\<close> is its \<open>page\<close>).
  \<open>clock 1\<close> is the reading of \<open>datetime.now()\<close> at the start and \<open>clock k\<close>, for a later
  page \<open>k\<close>, the reading taken by the delay that precedes that page, in microseconds;
  \<open>draw k\<close> is the value of \<open>random.random()\<close> in that delay, so that
  \<open>random.uniform(a, b)\<close> is \<open>a + (b - a) * draw k\<close>. \<open>today\<close> is the date as
  \<open>strftime("%Y-%m-%d")\<close> prints it.
\<close>

record world =
  post :: "int \<Rightarrow> json \<Rightarrow> http_outcome"
  clock :: "int \<Rightarrow> int"
  draw :: "int \<Rightarrow> rat"
  today :: string
  lib :: pylib

definition auth_keywords :: "string list" where
  "auth_keywords =
     [''unauthorized'', ''unauthenticated'', ''token'', ''expired'', ''invalid'', ''forbidden'',
      ''401'', ''403'']"

text \<open>\<open>HarmonicClient._check_and_notify_error\<close>; \<open>response\<close> is the status code of the
  response, \<open>None\<close> when no response is passed. The check of the status comes first;
  \<open>graphql_check\<close> is the check of the body that follows it.\<close>

definition check_and_notify_error ::
  "pylib \<Rightarrow> string \<Rightarrow> int option \<Rightarrow> json \<Rightarrow> notifier \<Rightarrow> py_error + (bool \<times> notifier)" where
  "check_and_notify_error L day response data n =
     (let graphql_check =
            (if \<not> truthy data then Inr (False, n)
             else bind_err (py_in ''errors'' data) (\<lambda>present.
               if \<not> present then Inr (False, n)
               else bind_err (subscript data ''errors'') (\<lambda>errors.
                 let error_str = (case errors of JArr _ \<Rightarrow> json_dumps L errors | _ \<Rightarrow> py_str L errors);
                     is_auth_error = list_ex (\<lambda>keyword. contains (lower error_str) keyword) auth_keywords
                 in Inr (True,
                      snd (if is_auth_error then notify_auth_failure day (Some (take 500 error_str)) n
                           else notify_api_error day ''GraphQL Error'' (Some (take 500 error_str)) n)))))
      in case response of
           None \<Rightarrow> graphql_check
         | Some status_code \<Rightarrow>
             if status_code = 401 \<or> status_code = 403
             then Inr (True,
                    snd (notify_auth_failure day
                           (Some (''HTTP '' @ int_str status_code @ '': Authentication/authorization failed'')) n))
             else graphql_check)"

text \<open>
  The locals of \<open>get_company_saved_search_results\<close>, followed by what the run has done to
  the outside so far: the payloads posted, the calls of \<open>_save_companies_to_json\<close> (file
  name and companies written), the companies written by \<open>_save_all_companies_to_json\<close>,
  the notifier of the client and the seconds slept.
\<close>

record fetch_state =
  all_edges :: "json list"
  total_count :: json
  page :: int
  current_batch :: "json list"
  batch_number :: int
  payload :: json
  posted :: "json list"
  batch_saves :: "(string \<times> json list) list"
  output_save :: "json list option"
  error_notifier :: notifier
  sleeps :: "rat list"

definition save_companies_to_json :: "json list \<Rightarrow> int \<Rightarrow> fetch_state \<Rightarrow> fetch_state" where
  "save_companies_to_json companies_data number s =
     s\<lparr>batch_saves := batch_saves s @
          [(''harmonic_companies_batch_'' @ fmt_03d number @ ''.json'', companies_data)]\<rparr>"

definition save_all_companies_to_json :: "json list \<Rightarrow> fetch_state \<Rightarrow> fetch_state" where
  "save_all_companies_to_json all_companies s = s\<lparr>output_save := Some all_companies\<rparr>"

definition uniform :: "rat \<Rightarrow> rat \<Rightarrow> rat \<Rightarrow> rat" where
  "uniform a b u = a + (b - a) * u"

text \<open>
  \<open>HarmonicClient._apply_human_like_delay\<close>, called before page \<open>k\<close>. The method returns
  nothing; the model gives the seconds it sleeps and the value its own variable
  \<open>last_long_break\<close> has when it returns. That variable is a parameter of the method:
  assigning to it does not change the variable of the caller.
\<close>

definition apply_human_like_delay :: "world \<Rightarrow> int \<Rightarrow> int \<Rightarrow> int \<Rightarrow> rat \<times> int" where
  "apply_human_like_delay w k start_time last_long_break =
     (let current_time = clock w k;
          time_since_last_long_break = current_time - last_long_break
      in if time_since_last_long_break \<ge> 3 * 60 * 1000000
         then (uniform (60 * 3) (60 * 5) (draw w k), current_time)
         else (uniform 2 8 (draw w k), last_long_break))"

text \<open>\<open>payload["variables"]["after"] = cursor\<close>.\<close>

definition set_after :: "json \<Rightarrow> json \<Rightarrow> py_error + json" where
  "set_after p cursor =
     bind_err (subscript p ''variables'') (\<lambda>variables.
       case (p, variables) of
         (JObj pkvs, JObj vkvs) \<Rightarrow>
           Inr (JObj (dict_set ''variables'' (JObj (dict_set ''after'' cursor vkvs)) pkvs))
       | _ \<Rightarrow> Inl TypeError)"

text \<open>The three \<open>break\<close>s of the loop, and how one pass through its body ends.\<close>

datatype exit = Exhausted | PageLimitReached | ErrorBreak

datatype step = Continue | Break exit | Raise py_error

text \<open>\<open>data["data"]["getSavedSearch"]["results"]\<close>.\<close>

definition search_results :: "json \<Rightarrow> py_error + json" where
  "search_results data =
     bind_err (subscript data ''data'') (\<lambda>d.
     bind_err (subscript d ''getSavedSearch'') (\<lambda>g. subscript g ''results''))"

text \<open>The body of the loop from the extraction of the companies to the saving of a batch.\<close>

definition collect_edges :: "int \<Rightarrow> json \<Rightarrow> fetch_state \<Rightarrow> py_error + (json \<times> fetch_state)" where
  "collect_edges batch_size data s =
     bind_err (search_results data) (\<lambda>search_companies.
     bind_err (subscript search_companies ''edges'') (\<lambda>edges.
     bind_err (iterate edges) (\<lambda>es.
     bind_err (if total_count s = JNull then dict_get search_companies ''totalCount'' JNull
               else Inr (total_count s)) (\<lambda>tc.
       let s1 = s\<lparr>all_edges := all_edges s @ es, current_batch := current_batch s @ es,
                   total_count := tc\<rparr>;
           s2 = (if int (length (current_batch s1)) \<ge> batch_size
                 then (save_companies_to_json (current_batch s1) (batch_number s1) s1)
                        \<lparr>current_batch := [], batch_number := batch_number s1 + 1\<rparr>
                 else s1)
       in Inr (search_companies, s2)))))"

text \<open>The pagination part of the body.\<close>

definition paginate ::
  "world \<Rightarrow> int \<Rightarrow> int \<Rightarrow> int \<Rightarrow> json \<Rightarrow> fetch_state \<Rightarrow> step \<times> fetch_state" where
  "paginate w max_pages start_time last_long_break search_companies s =
     (case subscript search_companies ''pageInfo'' of
        Inl e \<Rightarrow> (Raise e, s)
      | Inr page_info \<Rightarrow>
          (case subscript page_info ''hasNextPage'' of
             Inl e \<Rightarrow> (Raise e, s)
           | Inr has_next \<Rightarrow>
               if \<not> truthy has_next then (Break Exhausted, s)
               else if page s \<ge> max_pages then (Break PageLimitReached, s)
               else (case bind_err (subscript page_info ''endCursor'') (set_after (payload s)) of
                       Inl e \<Rightarrow> (Raise e, s)
                     | Inr p \<Rightarrow>
                         let s1 = s\<lparr>payload := p, page := page s + 1\<rparr>;
                             d = fst (apply_human_like_delay w (page s1) start_time last_long_break)
                         in (Continue, s1\<lparr>sleeps := sleeps s1 @ [d]\<rparr>))))"

text \<open>One pass through the body of \<open>while True\<close>.\<close>

definition iteration ::
  "world \<Rightarrow> int \<Rightarrow> int \<Rightarrow> int \<Rightarrow> int \<Rightarrow> fetch_state \<Rightarrow> step \<times> fetch_state" where
  "iteration w max_pages batch_size start_time last_long_break s =
     (let s0 = s\<lparr>posted := posted s @ [payload s]\<rparr> in
      case post w (page s) (payload s) of
        ConnectionFailed \<Rightarrow> (Raise ConnectionError, s0)
      | Response status_code None \<Rightarrow> (Raise JSONDecodeError, s0)
      | Response status_code (Some data) \<Rightarrow>
          (case check_and_notify_error (lib w) (today w) (Some status_code) data (error_notifier s0) of
             Inl e \<Rightarrow> (Raise e, s0)
           | Inr (True, n) \<Rightarrow>
               (case dict_get data ''errors'' (JStr (''HTTP '' @ int_str status_code)) of
                  Inl e \<Rightarrow> (Raise e, s0\<lparr>error_notifier := n\<rparr>)
                | Inr _ \<Rightarrow> (Break ErrorBreak, s0\<lparr>error_notifier := n\<rparr>))
           | Inr (False, n) \<Rightarrow>
               (case collect_edges batch_size data (s0\<lparr>error_notifier := n\<rparr>) of
                  Inl e \<Rightarrow> (Raise e, s0\<lparr>error_notifier := n\<rparr>)
                | Inr (search_companies, s1) \<Rightarrow>
                    paginate w max_pages start_time last_long_break search_companies s1)))"

function fetch_loop ::
  "world \<Rightarrow> int \<Rightarrow> int \<Rightarrow> int \<Rightarrow> int \<Rightarrow> fetch_state \<Rightarrow> (py_error + exit) \<times> fetch_state" where
  "fetch_loop w max_pages batch_size start_time last_long_break s =
     (case iteration w max_pages batch_size start_time last_long_break s of
        (Continue, s') \<Rightarrow> fetch_loop w max_pages batch_size start_time last_long_break s'
      | (Break x, s') \<Rightarrow> (Inr x, s')
      | (Raise e, s') \<Rightarrow> (Inl e, s'))"
  by pat_completeness auto
termination
proof (relation "measure (\<lambda>(w, max_pages, batch_size, start_time, last_long_break, s). nat (max_pages - page s))")
  show "wf (measure (\<lambda>(w, max_pages, batch_size, start_time, last_long_break, s). nat (max_pages - page s)))"
    by simp
next
  fix w max_pages batch_size start_time last_long_break s x1 x2
  assume "(x1, x2) = iteration w max_pages batch_size start_time last_long_break s" "x1 = Continue"
  then have run: "iteration w max_pages batch_size start_time last_long_break s = (Continue, x2)"
    by simp
  have paginate_page:
    "\<And>sc t t'. paginate w max_pages start_time last_long_break sc t = (Continue, t')
       \<Longrightarrow> page t < max_pages \<and> page t' = page t + 1"
    by (auto simp: paginate_def Let_def split: sum.splits if_splits)
  have collect_page:
    "\<And>data t sc t'. collect_edges batch_size data t = Inr (sc, t') \<Longrightarrow> page t' = page t"
    by (auto simp: collect_edges_def bind_err_def Let_def save_companies_to_json_def
             split: sum.splits if_splits)
  from run have "page s < max_pages \<and> page x2 = page s + 1"
    by (auto simp: iteration_def Let_def
             split: http_outcome.splits option.splits sum.splits prod.splits bool.splits if_splits
             dest!: paginate_page collect_page)
  then show "((w, max_pages, batch_size, start_time, last_long_break, x2),
         (w, max_pages, batch_size, start_time, last_long_break, s))
        \<in> measure (\<lambda>(w, max_pages, batch_size, start_time, last_long_break, s). nat (max_pages - page s))"
    by simp
qed

declare fetch_loop.simps [simp del]

text \<open>The \<open>query\<close> argument: a GraphQL query string or query data.\<close>

datatype query = QueryStr string | QueryData json

text \<open>The payload the loop starts with: a query string is wrapped, query data is used as
  it is.\<close>

definition payload_of :: "query \<Rightarrow> json" where
  "payload_of query = (case query of QueryStr q \<Rightarrow> JObj [(''query'', JStr q)] | QueryData q \<Rightarrow> q)"

text \<open>The dict the method returns.\<close>

record fetch_result =
  res_total_count :: json
  res_companies :: "json list"
  res_pages_fetched :: int

text \<open>
  What follows the loop: when the loop was left through a \<open>break\<close>, the remainder of the
  current batch is saved, then all companies, and the dict is returned; an exception raised
  in the loop leaves the method.
\<close>

definition after_loop ::
  "(py_error + exit) \<times> fetch_state \<Rightarrow> (py_error + exit \<times> fetch_result) \<times> fetch_state" where
  "after_loop ls =
     (case ls of
        (Inl e, s) \<Rightarrow> (Inl e, s)
      | (Inr x, s) \<Rightarrow>
          let s1 = (if current_batch s \<noteq> [] then save_companies_to_json (current_batch s) (batch_number s) s
                    else s);
              s2 = save_all_companies_to_json (all_edges s1) s1
          in (Inr (x, \<lparr>res_total_count = total_count s2, res_companies = all_edges s2,
                        res_pages_fetched = page s2\<rparr>), s2))"

text \<open>The locals and effects at the start of the method, for the client's notifier \<open>n\<close>.\<close>

definition initial_state :: "notifier \<Rightarrow> query \<Rightarrow> fetch_state" where
  "initial_state n query =
     \<lparr>all_edges = [], total_count = JNull, page = 1, current_batch = [], batch_number = 1,
      payload = payload_of query,
      posted = [], batch_saves = [], output_save = None, error_notifier = n, sleeps = []\<rparr>"

text \<open>
  \<open>HarmonicClient.get_company_saved_search_results\<close>. The client's notifier is passed in;
  the result tells whether the method raised or returned, through which \<open>break\<close> the loop
  was left, and the locals and effects at that point.
\<close>

definition get_company_saved_search_results ::
  "world \<Rightarrow> notifier \<Rightarrow> query \<Rightarrow> int \<Rightarrow> int \<Rightarrow> (py_error + exit \<times> fetch_result) \<times> fetch_state" where
  "get_company_saved_search_results w n query max_pages batch_size =
     (let start_time = clock w 1;
          last_long_break = start_time
      in after_loop (fetch_loop w max_pages batch_size start_time last_long_break (initial_state n query)))"

section \<open>The detail clients (get\_full\_profile.py, get\_education.py, get\_experience.py, get\_profile.py, search\_name.py)\<close>

text \<open>
  The service as a detail client sees it: \<open>respond op vars\<close> is the outcome of the request
  for operation \<open>op\<close> with variables \<open>vars\<close> (the query text of an operation is fixed).
\<close>

record service =
  respond :: "string \<Rightarrow> json \<Rightarrow> http_outcome"
  on_day :: string
  pyl :: pylib

definition request_auth_keywords :: "string list" where
  "request_auth_keywords = [''unauthorized'', ''unauthenticated'', ''token'', ''expired'', ''forbidden'']"

text \<open>\<open>_make_request\<close>, the same method in the five clients.\<close>

definition make_request ::
  "service \<Rightarrow> string \<Rightarrow> json \<Rightarrow> notifier \<Rightarrow> (py_error + json) \<times> notifier" where
  "make_request v operation_name variables n =
     (case respond v operation_name variables of
        ConnectionFailed \<Rightarrow> (Inl ConnectionError, n)
      | Response status_code parsed \<Rightarrow>
          let n1 = (if status_code = 401 \<or> status_code = 403
                    then snd (notify_auth_failure (on_day v)
                                (Some (''HTTP '' @ int_str status_code @ '': '' @ operation_name)) n)
                    else n)
          in if 400 \<le> status_code \<and> status_code < 600 then (Inl (HTTPError status_code), n1)
             else (case parsed of
                     None \<Rightarrow> (Inl JSONDecodeError, n1)
                   | Some data \<Rightarrow>
                       (case py_in ''errors'' data of
                          Inl e \<Rightarrow> (Inl e, n1)
                        | Inr False \<Rightarrow> (Inr data, n1)
                        | Inr True \<Rightarrow>
                            (case subscript data ''errors'' of
                               Inl e \<Rightarrow> (Inl e, n1)
                             | Inr errors \<Rightarrow>
                                 let error_str = take 500 (json_dumps (pyl v) errors)
                                 in (Inr data,
                                     snd (if list_ex (\<lambda>kw. contains (lower error_str) kw) request_auth_keywords
                                          then notify_auth_failure (on_day v) (Some error_str) n1
                                          else notify_api_error (on_day v) ''GraphQL Error'' (Some error_str) n1))))))"

text \<open>\<open>if "errors" in data: raise Exception(f"GraphQL errors: {data['errors']}")\<close>.\<close>

definition raise_on_errors :: "pylib \<Rightarrow> json \<Rightarrow> py_error + json" where
  "raise_on_errors L data =
     bind_err (py_in ''errors'' data) (\<lambda>present.
       if present
       then bind_err (subscript data ''errors'') (\<lambda>errors.
              Inl (Exception (''GraphQL errors: '' @ py_str L errors)))
       else Inr data)"

text \<open>\<open>data.get("data", {}).get("getPersonById", {})\<close>.\<close>

definition person_by_id :: "json \<Rightarrow> py_error + json" where
  "person_by_id data =
     bind_err (dict_get data ''data'' (JObj [])) (\<lambda>d. dict_get d ''getPersonById'' (JObj []))"

definition id_variables :: "int \<Rightarrow> json" where
  "id_variables person_id = JObj [(''id'', JInt person_id)]"

text \<open>\<open>HarmonicFullProfileClient.get_education\<close>.\<close>

definition get_education :: "service \<Rightarrow> int \<Rightarrow> notifier \<Rightarrow> (py_error + json) \<times> notifier" where
  "get_education v person_id n =
     (case make_request v ''GetPersonEducation'' (id_variables person_id) n of
        (Inl e, n1) \<Rightarrow> (Inl e, n1)
      | (Inr data, n1) \<Rightarrow>
          (bind_err (raise_on_errors (pyl v) data) (\<lambda>data.
           bind_err (person_by_id data) (\<lambda>result. dict_get result ''education'' (JArr []))), n1))"

text \<open>\<open>HarmonicFullProfileClient.get_experience\<close>.\<close>

definition get_experience :: "service \<Rightarrow> int \<Rightarrow> notifier \<Rightarrow> (py_error + json) \<times> notifier" where
  "get_experience v person_id n =
     (case make_request v ''GetPersonExperience'' (id_variables person_id) n of
        (Inl e, n1) \<Rightarrow> (Inl e, n1)
      | (Inr data, n1) \<Rightarrow>
          (bind_err (raise_on_errors (pyl v) data) (\<lambda>data.
           bind_err (person_by_id data) (\<lambda>result. dict_get result ''experience'' (JArr []))), n1))"

text \<open>
  A dict key must be hashable, and keys that compare equal are one key: \<open>True\<close>, \<open>1\<close> and
  \<open>1.0\<close> are.
\<close>

fun hashable :: "json \<Rightarrow> bool" where
  "hashable (JArr xs) = False"
| "hashable (JObj kvs) = False"
| "hashable _ = True"

fun key_eq :: "json \<Rightarrow> json \<Rightarrow> bool" where
  "key_eq (JBool a) (JBool b) = (a = b)"
| "key_eq (JBool a) (JInt j) = ((if a then 1 else 0) = j)"
| "key_eq (JBool a) (JFloat q) = ((if a then 1 else 0) = q)"
| "key_eq (JInt i) (JBool b) = (i = (if b then 1 else 0))"
| "key_eq (JInt i) (JInt j) = (i = j)"
| "key_eq (JInt i) (JFloat q) = (of_int i = q)"
| "key_eq (JFloat p) (JBool b) = (p = (if b then 1 else 0))"
| "key_eq (JFloat p) (JInt j) = (p = of_int j)"
| "key_eq (JFloat p) (JFloat q) = (p = q)"
| "key_eq x y = (x = y)"

text \<open>\<open>list(dict.fromkeys(xs))\<close>: the first occurrence of every key, in order.\<close>

fun fromkeys :: "json list \<Rightarrow> json list \<Rightarrow> py_error + json list" where
  "fromkeys seen [] = Inr seen"
| "fromkeys seen (x # xs) =
     (if \<not> hashable x then Inl TypeError
      else if list_ex (key_eq x) seen then fromkeys seen xs
      else fromkeys (seen @ [x]) xs)"

text \<open>\<open>[h.get("category", "") for h in highlights if h.get("category")]\<close>.\<close>

fun categories :: "json list \<Rightarrow> py_error + json list" where
  "categories [] = Inr []"
| "categories (h # hs) =
     bind_err (dict_get h ''category'' JNull) (\<lambda>c.
     bind_err (categories hs) (\<lambda>cs. Inr (if truthy c then c # cs else cs)))"

text \<open>\<open>HarmonicFullProfileClient.get_person_highlights\<close>.\<close>

definition get_person_highlights :: "service \<Rightarrow> int \<Rightarrow> notifier \<Rightarrow> (py_error + json) \<times> notifier" where
  "get_person_highlights v person_id n =
     (case make_request v ''GetPersonProfileHeader'' (id_variables person_id) n of
        (Inl e, n1) \<Rightarrow> (Inl e, n1)
      | (Inr data, n1) \<Rightarrow>
          (bind_err (py_in ''errors'' data) (\<lambda>present.
             if present then Inr (JArr [])
             else bind_err (person_by_id data) (\<lambda>person.
                  bind_err (dict_get person ''highlights'' (JArr [])) (\<lambda>highlights.
                  bind_err (iterate highlights) (\<lambda>hs.
                  bind_err (categories hs) (\<lambda>cs.
                  bind_err (fromkeys [] cs) (\<lambda>ks. Inr (JArr ks))))))), n1))"

text \<open>\<open>HarmonicEducationClient.get_person_education\<close>.\<close>

definition get_person_education :: "service \<Rightarrow> int \<Rightarrow> notifier \<Rightarrow> (py_error + json) \<times> notifier" where
  "get_person_education v person_id n =
     (case make_request v ''GetPersonEducation'' (id_variables person_id) n of
        (Inl e, n1) \<Rightarrow> (Inl e, n1)
      | (Inr data, n1) \<Rightarrow> (bind_err (raise_on_errors (pyl v) data) person_by_id, n1))"

text \<open>\<open>get_person_experience\<close> of \<open>HarmonicExperienceClient\<close> and of the profile client.\<close>

definition get_person_experience :: "service \<Rightarrow> int \<Rightarrow> notifier \<Rightarrow> (py_error + json) \<times> notifier" where
  "get_person_experience v person_id n =
     (case make_request v ''GetPersonExperience'' (id_variables person_id) n of
        (Inl e, n1) \<Rightarrow> (Inl e, n1)
      | (Inr data, n1) \<Rightarrow> (bind_err (raise_on_errors (pyl v) data) person_by_id, n1))"

text \<open>\<open>search\<close> of the name search client.\<close>

definition search :: "service \<Rightarrow> string \<Rightarrow> notifier \<Rightarrow> (py_error + json) \<times> notifier" where
  "search v query n =
     (case make_request v ''TypeaheadSearchWithInvestors'' (JObj [(''query'', JStr query)]) n of
        (Inl e, n1) \<Rightarrow> (Inl e, n1)
      | (Inr data, n1) \<Rightarrow>
          (bind_err (raise_on_errors (pyl v) data) (\<lambda>data. dict_get data ''data'' (JObj [])), n1))"

text \<open>
  \<open>HarmonicFullProfileClient.get_full_profile\<close>: every sub-fetch in its own \<open>try\<close>, a
  failure recorded in \<open>errors\<close>.
\<close>

definition get_full_profile :: "service \<Rightarrow> int \<Rightarrow> notifier \<Rightarrow> json \<times> notifier" where
  "get_full_profile v person_id n =
     (let (h, n1) = get_person_highlights v person_id n;
          (ed, n2) = get_education v person_id n1;
          (ex, n3) = get_experience v person_id n2;
          caught = (\<lambda>label r. case r of Inl e \<Rightarrow> [JStr (label @ exc_str (pyl v) e)] | Inr _ \<Rightarrow> []);
          kept = (\<lambda>r. case r of Inl e \<Rightarrow> JArr [] | Inr x \<Rightarrow> x)
      in (JObj [(''person_id'', JInt person_id),
                (''highlights'', kept h),
                (''education'', kept ed),
                (''experience'', kept ex),
                (''errors'', JArr (caught ''Highlights: '' h @ caught ''Education: '' ed @
                                   caught ''Experience: '' ex))],
          n3))"


section \<open>The sync to the warehouse (sync\_harmonic\_to\_bigquery.py)\<close>

definition py_or :: "json \<Rightarrow> json \<Rightarrow> json" where
  "py_or x y = (if truthy x then x else y)"

definition rstrip_slash :: "string \<Rightarrow> string" where
  "rstrip_slash s = rev (dropWhile (\<lambda>c. c = CHR ''/'') (rev s))"

text \<open>\<open>s.split("/")[-1]\<close>: what follows the last slash.\<close>

definition last_part :: "string \<Rightarrow> string" where
  "last_part s = rev (takeWhile (\<lambda>c. c \<noteq> CHR ''/'') (rev s))"

text \<open>\<open>url.rstrip("/").split("/")[-1]\<close>, methods of a str only.\<close>

definition url_slug :: "json \<Rightarrow> py_error + string" where
  "url_slug url = (case url of JStr s \<Rightarrow> Inr (last_part (rstrip_slash s)) | _ \<Rightarrow> Inl AttributeError)"

text \<open>
  \<open>if entry.get(k): try: d = entry[k][:10] except: pass\<close>, with \<open>d\<close> set to \<open>initial\<close>
  before.
\<close>

definition date_prefix :: "json \<Rightarrow> string \<Rightarrow> json \<Rightarrow> py_error + json" where
  "date_prefix entry k initial =
     bind_err (dict_get entry k JNull) (\<lambda>v.
       Inr (if truthy v then (case slice_to 10 v of Inr d \<Rightarrow> d | Inl _ \<Rightarrow> initial) else initial))"

definition education_row :: "string \<Rightarrow> string \<Rightarrow> nat \<Rightarrow> json \<Rightarrow> py_error + json" where
  "education_row day linkedin_id idx edu =
     bind_err (dict_get edu ''school'' (JObj [])) (\<lambda>school.
     bind_err (dict_get school ''name'' (JStr [])) (\<lambda>school_name.
     bind_err (dict_get school ''linkedinUrl'' (JStr [])) (\<lambda>linkedin_url.
     bind_err (dict_get school ''logoUrl'' JNull) (\<lambda>logo.
     bind_err (if truthy linkedin_url
               then bind_err (url_slug linkedin_url) (\<lambda>school_slug. Inr (''urn:li:fs_miniSchool:'' @ school_slug))
               else Inr []) (\<lambda>school_urn.
     bind_err (date_prefix edu ''startDate'' JNull) (\<lambda>start_date.
     bind_err (date_prefix edu ''endDate'' JNull) (\<lambda>end_date.
     bind_err (dict_get edu ''field'' JNull) (\<lambda>field.
     bind_err (dict_get edu ''degree'' JNull) (\<lambda>degree.
       let i = int_str (int idx);
           urn_or = (\<lambda>other. JStr (if school_urn \<noteq> [] then school_urn else other))
       in Inr (JObj
            [(''date'', JStr day),
             (''linkedinId'', JStr linkedin_id),
             (''entityUrn'', JStr (''urn:li:fs_education:harmonic_'' @ linkedin_id @ ''_'' @ i)),
             (''school_objectUrn'', urn_or (''urn:li:school:harmonic_'' @ i)),
             (''school_entityUrn'', urn_or (''urn:li:fs_miniSchool:harmonic_'' @ i)),
             (''school_active'', JBool True),
             (''school_schoolName'', school_name),
             (''school_trackingId'', JStr (''harmonic_'' @ linkedin_id @ ''_'' @ i)),
             (''school_logoUrl'', py_or logo (JStr [])),
             (''startDate'', start_date),
             (''endDate'', end_date),
             (''schoolName'', school_name),
             (''fieldOfStudy'', py_or field (JStr [])),
             (''schoolUrn'', urn_or (''urn:li:fs_miniSchool:harmonic_'' @ i)),
             (''degreeName'', degree)]))))))))))"

text \<open>The loop over \<open>enumerate(entries)\<close> that builds one row per entry.\<close>

fun rows_from :: "(nat \<Rightarrow> json \<Rightarrow> py_error + json) \<Rightarrow> nat \<Rightarrow> json list \<Rightarrow> py_error + json list" where
  "rows_from row idx [] = Inr []"
| "rows_from row idx (entry # rest) =
     bind_err (row idx entry) (\<lambda>r.
     bind_err (rows_from row (Suc idx) rest) (\<lambda>rs. Inr (r # rs)))"

text \<open>\<open>transform_education\<close>; \<open>day\<close> is today's date as the method reads it.\<close>

definition transform_education :: "string \<Rightarrow> json \<Rightarrow> string \<Rightarrow> py_error + json list" where
  "transform_education day education_list linkedin_id =
     bind_err (iterate education_list) (rows_from (education_row day linkedin_id) 0)"

definition experience_row :: "pylib \<Rightarrow> string \<Rightarrow> string \<Rightarrow> nat \<Rightarrow> json \<Rightarrow> py_error + json" where
  "experience_row L day linkedin_id idx pos =
     bind_err (dict_get pos ''company'' (JObj [])) (\<lambda>company.
     bind_err (dict_get company ''name'' (JStr [])) (\<lambda>company_name.
     bind_err (dict_get company ''logoUrl'' JNull) (\<lambda>logo.
     bind_err (dict_get company ''socials'' JNull) (\<lambda>socials.
     bind_err (dict_get (py_or socials (JObj [])) ''linkedin'' JNull) (\<lambda>linkedin_info.
     bind_err (dict_get (py_or linkedin_info (JObj [])) ''url'' (JStr [])) (\<lambda>company_linkedin_url.
     bind_err (date_prefix pos ''startDate'' (JStr [])) (\<lambda>start_date.
     bind_err (date_prefix pos ''endDate'' JNull) (\<lambda>end_date.
     bind_err (dict_get company ''id'' JNull) (\<lambda>company_id.
     bind_err (dict_get pos ''description'' JNull) (\<lambda>description.
     bind_err (dict_get pos ''title'' JNull) (\<lambda>title.
       Inr (JObj
            [(''date'', JStr day),
             (''linkedinId'', JStr linkedin_id),
             (''entityUrn'', JStr (''urn:li:fs_position:harmonic_'' @ linkedin_id @ ''_'' @ int_str (int idx))),
             (''companyName'', company_name),
             (''startDate'', start_date),
             (''endDate'', end_date),
             (''description'', description),
             (''title'', title),
             (''companyUrn'',
                if truthy company_id then JStr (''urn:li:fs_miniCompany:harmonic_'' @ py_str L company_id)
                else JNull),
             (''companyLogoUrl'', py_or logo (JStr [])),
             (''locationName'', JNull),
             (''geoLocationName'', JNull),
             (''geoUrn'', JNull),
             (''region'', JNull)]))))))))))))"

definition transform_experience :: "pylib \<Rightarrow> string \<Rightarrow> json \<Rightarrow> string \<Rightarrow> py_error + json list" where
  "transform_experience L day experience_list linkedin_id =
     bind_err (iterate experience_list) (rows_from (experience_row L day linkedin_id) 0)"

text \<open>The headline loop of \<open>transform_profile\<close>: the first current position decides.\<close>

fun find_headline :: "pylib \<Rightarrow> json list \<Rightarrow> py_error + json" where
  "find_headline L [] = Inr JNull"
| "find_headline L (pos # rest) =
     bind_err (dict_get pos ''isCurrentPosition'' JNull) (\<lambda>current.
       if truthy current
       then bind_err (dict_get pos ''title'' (JStr [])) (\<lambda>title.
            bind_err (dict_get pos ''company'' (JObj [])) (\<lambda>c.
            bind_err (dict_get c ''name'' (JStr [])) (\<lambda>company.
              Inr (if truthy title \<and> truthy company
                   then JStr (py_str L title @ '' at '' @ py_str L company)
                   else JNull))))
       else find_headline L rest)"

text \<open>\<open>int(end_date[:4])\<close> inside \<open>try\<close>: \<open>None\<close> where it raises.\<close>

definition end_year :: "pylib \<Rightarrow> json \<Rightarrow> int option" where
  "end_year L end_date = (case slice_to 4 end_date of Inr (JStr y) \<Rightarrow> py_int L y | _ \<Rightarrow> None)"

text \<open>The student loop of \<open>transform_profile\<close>.\<close>

fun is_student :: "pylib \<Rightarrow> int \<Rightarrow> json list \<Rightarrow> py_error + bool" where
  "is_student L current_year [] = Inr False"
| "is_student L current_year (edu # rest) =
     bind_err (dict_get edu ''endDate'' (JStr [])) (\<lambda>end_date.
       if truthy end_date
       then (case end_year L end_date of
               Some y \<Rightarrow> if y \<ge> current_year then Inr True else is_student L current_year rest
             | None \<Rightarrow> is_student L current_year rest)
       else is_student L current_year rest)"

definition transform_profile ::
  "pylib \<Rightarrow> string \<Rightarrow> int \<Rightarrow> int \<Rightarrow> string \<Rightarrow> json \<Rightarrow> json \<Rightarrow> py_error + json" where
  "transform_profile L day current_year harmonic_id linkedin_id education_list experience_list =
     bind_err (iterate experience_list) (\<lambda>exps.
     bind_err (find_headline L exps) (\<lambda>headline.
     bind_err (iterate education_list) (\<lambda>edus.
     bind_err (is_student L current_year edus) (\<lambda>student.
       Inr (JObj
            [(''date'', JStr day),
             (''linkedinId'', JStr linkedin_id),
             (''industryName'', JNull),
             (''lastName'', JNull),
             (''locationName'', JNull),
             (''student'', JBool student),
             (''geoCountryName'', JNull),
             (''geoCountryUrn'', JNull),
             (''geoLocationBackfilled'', JBool False),
             (''elt'', JBool False),
             (''industryUrn'', JNull),
             (''firstName'', JNull),
             (''entityUrn'', JStr (''urn:li:fs_profile:harmonic_'' @ int_str harmonic_id)),
             (''geoLocation'', JNull),
             (''geoLocationName'', JNull),
             (''headline'', headline),
             (''displayPictureUrl'', JNull),
             (''img_100_100'', JNull),
             (''img_200_200'', JNull),
             (''img_400_400'', JNull),
             (''img_800_800'', JNull),
             (''profile_id'', JStr (int_str harmonic_id)),
             (''profile_urn'', JStr (''urn:li:fs_profile:harmonic_'' @ int_str harmonic_id)),
             (''member_urn'', JStr (''urn:li:member:harmonic_'' @ int_str harmonic_id)),
             (''public_id'', JStr linkedin_id)])))))"


text \<open>
  The surroundings of a sync. \<open>fetch_profile\<close> is \<open>get_full_profile\<close> of the client object the
  syncer holds: the profile it returns, or the exception it raises. \<open>harmonic\<close> is the service
  the syncer queries itself. \<open>count_query t k\<close> is the answer of the warehouse to the
  \<open>COUNT(*)\<close> query on table \<open>t\<close> for key \<open>k\<close>: the \<open>count\<close> of every result row.
  \<open>insert_rows_json t rows\<close> is the list of errors the warehouse returns for that insert.
  Each table is asked once and before its own insert, so the answers need no state.
\<close>

record sync_env =
  fetch_profile :: "int \<Rightarrow> py_error + json"
  harmonic :: service
  count_query :: "string \<Rightarrow> string \<Rightarrow> py_error + int list"
  insert_rows_json :: "string \<Rightarrow> json list \<Rightarrow> py_error + json list"
  year_now :: int
  utcnow_created :: string
  utcnow_updated :: string

text \<open>What a run asks of the warehouse and computes for it, in order: an existence query
  (table, key), a transform for a table, an insert (table, rows).\<close>

datatype call = Counted string string | Transformed string | Inserted string "json list"

text \<open>One entry of the results dict; \<open>t_data\<close> is \<open>None\<close> for the mapping entry, which has
  no \<open>data\<close> key.\<close>

record table_report =
  t_exists :: bool
  t_inserted :: int
  t_skipped :: bool
  t_data :: "json option"

record sync_results =
  r_harmonic_id :: int
  r_linkedin_id :: string
  r_mapping :: table_report
  r_education :: table_report
  r_experience :: table_report
  r_profile :: table_report
  r_errors :: "string list"

record sync_state =
  results :: sync_results
  calls :: "call list"
  sync_notifier :: notifier

definition table_ref :: "string \<Rightarrow> string" where
  "table_ref table_name = ''chapter-one-340115'' @ ''.'' @ ''linkedin_internal'' @ ''.'' @ table_name"

definition first_count_positive :: "int list \<Rightarrow> bool" where
  "first_count_positive rows = (case rows of [] \<Rightarrow> False | c # _ \<Rightarrow> c > 0)"

definition check_user_exists ::
  "sync_env \<Rightarrow> string \<Rightarrow> string \<Rightarrow> sync_state \<Rightarrow> (py_error + bool) \<times> sync_state" where
  "check_user_exists E table_name linkedin_id s =
     (bind_err (count_query E (table_ref table_name) linkedin_id) (\<lambda>rows. Inr (first_count_positive rows)),
      s\<lparr>calls := calls s @ [Counted (table_ref table_name) linkedin_id]\<rparr>)"

definition check_mapping_exists ::
  "sync_env \<Rightarrow> string \<Rightarrow> sync_state \<Rightarrow> (py_error + bool) \<times> sync_state" where
  "check_mapping_exists E linkedin_id s =
     (bind_err (count_query E (table_ref ''linkedin_harmonic_mapping'') linkedin_id)
        (\<lambda>rows. Inr (first_count_positive rows)),
      s\<lparr>calls := calls s @ [Counted (table_ref ''linkedin_harmonic_mapping'') linkedin_id]\<rparr>)"

text \<open>The call of \<open>insert_rows_json\<close> shared by the four insert methods: the number of rows
  counted as inserted is \<open>0\<close> when the warehouse returns errors.\<close>

definition insert_into ::
  "sync_env \<Rightarrow> string \<Rightarrow> json list \<Rightarrow> sync_state \<Rightarrow> (py_error + int) \<times> sync_state" where
  "insert_into E table_name rows s =
     (bind_err (insert_rows_json E (table_ref table_name) rows)
        (\<lambda>errors. Inr (if errors \<noteq> [] then 0 else int (length rows))),
      s\<lparr>calls := calls s @ [Inserted (table_ref table_name) rows]\<rparr>)"

definition insert_education ::
  "sync_env \<Rightarrow> json list \<Rightarrow> sync_state \<Rightarrow> (py_error + int) \<times> sync_state" where
  "insert_education E rows s = (if rows = [] then (Inr 0, s) else insert_into E ''linkedin_education'' rows s)"

definition insert_experience ::
  "sync_env \<Rightarrow> json list \<Rightarrow> sync_state \<Rightarrow> (py_error + int) \<times> sync_state" where
  "insert_experience E rows s = (if rows = [] then (Inr 0, s) else insert_into E ''linkedin_experience'' rows s)"

definition insert_profile ::
  "sync_env \<Rightarrow> json \<Rightarrow> sync_state \<Rightarrow> (py_error + int) \<times> sync_state" where
  "insert_profile E row s = insert_into E ''linkedin_profile'' [row] s"

definition insert_mapping ::
  "sync_env \<Rightarrow> int \<Rightarrow> string \<Rightarrow> json \<Rightarrow> string \<Rightarrow> sync_state \<Rightarrow> (py_error + int) \<times> sync_state" where
  "insert_mapping E harmonic_id linkedin_id full_name linkedin_url s =
     insert_into E ''linkedin_harmonic_mapping''
       [JObj [(''linkedin_id'', JStr linkedin_id),
              (''harmonic_id'', JInt harmonic_id),
              (''full_name'', full_name),
              (''linkedin_url'', JStr linkedin_url),
              (''created_at'', JStr (utcnow_created E)),
              (''updated_at'', JStr (utcnow_updated E))]] s"

text \<open>The part of \<open>get_linkedin_id_from_harmonic\<close> that reads the person out of the body.\<close>

definition linkedin_of :: "json \<Rightarrow> py_error + (string \<times> json) option" where
  "linkedin_of data =
     bind_err (person_by_id data) (\<lambda>person.
     bind_err (dict_get person ''fullName'' JNull) (\<lambda>full_name.
     bind_err (dict_get person ''socials'' (JObj [])) (\<lambda>socials.
     bind_err (dict_get socials ''linkedin'' (JObj [])) (\<lambda>linkedin.
     bind_err (dict_get linkedin ''url'' JNull) (\<lambda>linkedin_url.
       if truthy linkedin_url
       then bind_err (url_slug linkedin_url) (\<lambda>linkedin_id. Inr (Some (linkedin_id, full_name)))
       else Inr None)))))"

text \<open>\<open>get_linkedin_id_from_harmonic\<close>: every exception inside is caught and gives \<open>None\<close>.\<close>

definition get_linkedin_id_from_harmonic ::
  "service \<Rightarrow> int \<Rightarrow> notifier \<Rightarrow> (string \<times> json) option \<times> notifier" where
  "get_linkedin_id_from_harmonic v harmonic_id n =
     (case respond v ''GetPersonLinkedIn'' (id_variables harmonic_id) of
        ConnectionFailed \<Rightarrow> (None, n)
      | Response status_code parsed \<Rightarrow>
          let n1 = (if status_code = 401 \<or> status_code = 403
                    then snd (notify_auth_failure (on_day v)
                                (Some (''HTTP '' @ int_str status_code @ '': get_linkedin_id_from_harmonic'')) n)
                    else n);
              found = (\<lambda>data. case linkedin_of data of Inl e \<Rightarrow> None | Inr r \<Rightarrow> r)
          in if 400 \<le> status_code \<and> status_code < 600 then (None, n1)
             else (case parsed of
                     None \<Rightarrow> (None, n1)
                   | Some data \<Rightarrow>
                       (case py_in ''errors'' data of
                          Inl e \<Rightarrow> (None, n1)
                        | Inr False \<Rightarrow> (found data, n1)
                        | Inr True \<Rightarrow>
                            (case subscript data ''errors'' of
                               Inl e \<Rightarrow> (None, n1)
                             | Inr errors \<Rightarrow>
                                 (found data,
                                  snd (notify_api_error (on_day v) ''GraphQL Error''
                                         (Some (take 500 (json_dumps (pyl v) errors))) n1))))))"

text \<open>Running a part of the method after another that may have raised.\<close>

definition and_then ::
  "(sync_state \<Rightarrow> py_error option \<times> sync_state) \<Rightarrow> (sync_state \<Rightarrow> py_error option \<times> sync_state)
     \<Rightarrow> sync_state \<Rightarrow> py_error option \<times> sync_state" where
  "and_then f g s = (case f s of (None, s1) \<Rightarrow> g s1 | (Some e, s1) \<Rightarrow> (Some e, s1))"

definition set_mapping :: "(table_report \<Rightarrow> table_report) \<Rightarrow> sync_state \<Rightarrow> sync_state" where
  "set_mapping f s = s\<lparr>results := (results s)\<lparr>r_mapping := f (r_mapping (results s))\<rparr>\<rparr>"

definition set_education :: "(table_report \<Rightarrow> table_report) \<Rightarrow> sync_state \<Rightarrow> sync_state" where
  "set_education f s = s\<lparr>results := (results s)\<lparr>r_education := f (r_education (results s))\<rparr>\<rparr>"

definition set_experience :: "(table_report \<Rightarrow> table_report) \<Rightarrow> sync_state \<Rightarrow> sync_state" where
  "set_experience f s = s\<lparr>results := (results s)\<lparr>r_experience := f (r_experience (results s))\<rparr>\<rparr>"

definition set_profile :: "(table_report \<Rightarrow> table_report) \<Rightarrow> sync_state \<Rightarrow> sync_state" where
  "set_profile f s = s\<lparr>results := (results s)\<lparr>r_profile := f (r_profile (results s))\<rparr>\<rparr>"

text \<open>The four parts of \<open>sync_person\<close> that follow the fetch, one per table.\<close>

definition sync_mapping ::
  "sync_env \<Rightarrow> int \<Rightarrow> string \<Rightarrow> json \<Rightarrow> bool \<Rightarrow> sync_state \<Rightarrow> py_error option \<times> sync_state" where
  "sync_mapping E harmonic_id linkedin_id full_name dry_run s =
     (case check_mapping_exists E linkedin_id s of
        (Inl e, s1) \<Rightarrow> (Some e, s1)
      | (Inr True, s1) \<Rightarrow> (None, set_mapping (\<lambda>t. t\<lparr>t_exists := True, t_skipped := True\<rparr>) s1)
      | (Inr False, s1) \<Rightarrow>
          if dry_run then (None, set_mapping (\<lambda>t. t\<lparr>t_inserted := 1\<rparr>) s1)
          else (case insert_mapping E harmonic_id linkedin_id full_name
                       (''https://linkedin.com/in/'' @ linkedin_id) s1 of
                  (Inl e, s2) \<Rightarrow> (Some e, s2)
                | (Inr inserted, s2) \<Rightarrow> (None, set_mapping (\<lambda>t. t\<lparr>t_inserted := inserted\<rparr>) s2)))"

definition sync_education ::
  "sync_env \<Rightarrow> json \<Rightarrow> string \<Rightarrow> bool \<Rightarrow> sync_state \<Rightarrow> py_error option \<times> sync_state" where
  "sync_education E education_list linkedin_id dry_run s =
     (case check_user_exists E ''linkedin_education'' linkedin_id s of
        (Inl e, s1) \<Rightarrow> (Some e, s1)
      | (Inr True, s1) \<Rightarrow> (None, set_education (\<lambda>t. t\<lparr>t_exists := True, t_skipped := True\<rparr>) s1)
      | (Inr False, s1) \<Rightarrow>
          let s2 = s1\<lparr>calls := calls s1 @ [Transformed (table_ref ''linkedin_education'')]\<rparr> in
          (case transform_education (on_day (harmonic E)) education_list linkedin_id of
             Inl e \<Rightarrow> (Some e, s2)
           | Inr edu_rows \<Rightarrow>
               let s3 = set_education (\<lambda>t. t\<lparr>t_data := Some (JArr edu_rows)\<rparr>) s2 in
               if dry_run then (None, set_education (\<lambda>t. t\<lparr>t_inserted := int (length edu_rows)\<rparr>) s3)
               else (case insert_education E edu_rows s3 of
                       (Inl e, s4) \<Rightarrow> (Some e, s4)
                     | (Inr inserted, s4) \<Rightarrow>
                         (None, set_education (\<lambda>t. t\<lparr>t_inserted := inserted\<rparr>) s4))))"

definition sync_experience ::
  "sync_env \<Rightarrow> json \<Rightarrow> string \<Rightarrow> bool \<Rightarrow> sync_state \<Rightarrow> py_error option \<times> sync_state" where
  "sync_experience E experience_list linkedin_id dry_run s =
     (case check_user_exists E ''linkedin_experience'' linkedin_id s of
        (Inl e, s1) \<Rightarrow> (Some e, s1)
      | (Inr True, s1) \<Rightarrow> (None, set_experience (\<lambda>t. t\<lparr>t_exists := True, t_skipped := True\<rparr>) s1)
      | (Inr False, s1) \<Rightarrow>
          let s2 = s1\<lparr>calls := calls s1 @ [Transformed (table_ref ''linkedin_experience'')]\<rparr> in
          (case transform_experience (pyl (harmonic E)) (on_day (harmonic E)) experience_list linkedin_id of
             Inl e \<Rightarrow> (Some e, s2)
           | Inr exp_rows \<Rightarrow>
               let s3 = set_experience (\<lambda>t. t\<lparr>t_data := Some (JArr exp_rows)\<rparr>) s2 in
               if dry_run then (None, set_experience (\<lambda>t. t\<lparr>t_inserted := int (length exp_rows)\<rparr>) s3)
               else (case insert_experience E exp_rows s3 of
                       (Inl e, s4) \<Rightarrow> (Some e, s4)
                     | (Inr inserted, s4) \<Rightarrow>
                         (None, set_experience (\<lambda>t. t\<lparr>t_inserted := inserted\<rparr>) s4))))"

definition sync_profile ::
  "sync_env \<Rightarrow> int \<Rightarrow> string \<Rightarrow> json \<Rightarrow> json \<Rightarrow> bool \<Rightarrow> sync_state \<Rightarrow> py_error option \<times> sync_state" where
  "sync_profile E harmonic_id linkedin_id education_list experience_list dry_run s =
     (case check_user_exists E ''linkedin_profile'' linkedin_id s of
        (Inl e, s1) \<Rightarrow> (Some e, s1)
      | (Inr True, s1) \<Rightarrow> (None, set_profile (\<lambda>t. t\<lparr>t_exists := True, t_skipped := True\<rparr>) s1)
      | (Inr False, s1) \<Rightarrow>
          let s2 = s1\<lparr>calls := calls s1 @ [Transformed (table_ref ''linkedin_profile'')]\<rparr> in
          (case transform_profile (pyl (harmonic E)) (on_day (harmonic E)) (year_now E) harmonic_id
                  linkedin_id education_list experience_list of
             Inl e \<Rightarrow> (Some e, s2)
           | Inr profile_row \<Rightarrow>
               let s3 = set_profile (\<lambda>t. t\<lparr>t_data := Some profile_row\<rparr>) s2 in
               if dry_run then (None, set_profile (\<lambda>t. t\<lparr>t_inserted := 1\<rparr>) s3)
               else (case insert_profile E profile_row s3 of
                       (Inl e, s4) \<Rightarrow> (Some e, s4)
                     | (Inr inserted, s4) \<Rightarrow>
                         (None, set_profile (\<lambda>t. t\<lparr>t_inserted := inserted\<rparr>) s4))))"

definition initial_results :: "int \<Rightarrow> string \<Rightarrow> sync_results" where
  "initial_results harmonic_id linkedin_id =
     \<lparr>r_harmonic_id = harmonic_id, r_linkedin_id = linkedin_id,
      r_mapping = \<lparr>t_exists = False, t_inserted = 0, t_skipped = False, t_data = None\<rparr>,
      r_education = \<lparr>t_exists = False, t_inserted = 0, t_skipped = False, t_data = Some (JArr [])\<rparr>,
      r_experience = \<lparr>t_exists = False, t_inserted = 0, t_skipped = False, t_data = Some (JArr [])\<rparr>,
      r_profile = \<lparr>t_exists = False, t_inserted = 0, t_skipped = False, t_data = Some JNull\<rparr>,
      r_errors = []\<rparr>"

text \<open>
  \<open>HarmonicToBigQuerySync.sync_person\<close>, run with the syncer's notifier \<open>n\<close>. The first
  component is \<open>None\<close> when the method returns (its value is then \<open>results\<close> of the state)
  and the exception when it raises; the state holds the results dict, the calls made and
  the notifier at that point. The output printed, also under \<open>verbose\<close>, is not modelled.
\<close>

definition sync_person ::
  "sync_env \<Rightarrow> notifier \<Rightarrow> int \<Rightarrow> string \<Rightarrow> bool \<Rightarrow> bool \<Rightarrow> py_error option \<times> sync_state" where
  "sync_person E n harmonic_id linkedin_id dry_run verbose =
     (let s0 = \<lparr>results = initial_results harmonic_id linkedin_id, calls = [], sync_notifier = n\<rparr> in
      case fetch_profile E harmonic_id of
        Inl e \<Rightarrow>
          (None, s0\<lparr>results := (results s0)
                    \<lparr>r_errors := r_errors (results s0) @
                       [''Failed to fetch from Harmonic: '' @ exc_str (pyl (harmonic E)) e]\<rparr>\<rparr>)
      | Inr profile_data \<Rightarrow>
          (case bind_err (dict_get profile_data ''education'' (JArr [])) (\<lambda>education_list.
                bind_err (dict_get profile_data ''experience'' (JArr [])) (\<lambda>experience_list.
                bind_err (py_len education_list) (\<lambda>_.
                bind_err (py_len experience_list) (\<lambda>_. Inr (education_list, experience_list))))) of
             Inl e \<Rightarrow> (Some e, s0)
           | Inr (education_list, experience_list) \<Rightarrow>
               let (linkedin_info, n1) = get_linkedin_id_from_harmonic (harmonic E) harmonic_id n;
                   full_name = (case linkedin_info of Some (_, name) \<Rightarrow> name | None \<Rightarrow> JNull)
               in and_then (sync_mapping E harmonic_id linkedin_id full_name dry_run)
                   (and_then (sync_education E education_list linkedin_id dry_run)
                     (and_then (sync_experience E experience_list linkedin_id dry_run)
                       (sync_profile E harmonic_id linkedin_id education_list experience_list dry_run)))
                   (s0\<lparr>sync_notifier := n1\<rparr>)))"

text \<open>The syncer as \<open>__init__\<close> builds it: its client is a \<open>HarmonicFullProfileClient\<close> on
  service \<open>v\<close> with a notifier \<open>cn\<close> of its own.\<close>

definition with_full_profile_client :: "service \<Rightarrow> notifier \<Rightarrow> sync_env \<Rightarrow> sync_env" where
  "with_full_profile_client v cn E = E\<lparr>fetch_profile := (\<lambda>person_id. Inr (fst (get_full_profile v person_id cn)))\<rparr>"

section \<open>Notions used in the statements\<close>

text \<open>The three content tables of the sync, and the entry of the results dict that
  reports on each.\<close>

definition content_tables :: "string list" where
  "content_tables = [''linkedin_education'', ''linkedin_experience'', ''linkedin_profile'']"

definition report_for :: "string \<Rightarrow> sync_results \<Rightarrow> table_report" where
  "report_for T r =
     (if T = ''linkedin_education'' then r_education r
      else if T = ''linkedin_experience'' then r_experience r
      else r_profile r)"

text \<open>A call that inserts into table \<open>T\<close>, and one that transforms for it.\<close>

fun inserts_into :: "string \<Rightarrow> call \<Rightarrow> bool" where
  "inserts_into T (Inserted t rows) = (t = table_ref T)"
| "inserts_into T _ = False"

fun transforms_for :: "string \<Rightarrow> call \<Rightarrow> bool" where
  "transforms_for T (Transformed t) = (t = table_ref T)"
| "transforms_for T _ = False"

text \<open>The state of a sync respects the skip rule for table \<open>T\<close>: nothing was inserted or
  transformed for it, its entry still has the initial count and data, and once its
  existence query has been made the entry is marked.\<close>

definition skip_kept :: "string \<Rightarrow> string \<Rightarrow> sync_state \<Rightarrow> bool" where
  "skip_kept T linkedin_id s =
     (\<not> list_ex (inserts_into T) (calls s) \<and> \<not> list_ex (transforms_for T) (calls s) \<and>
      t_inserted (report_for T (results s)) = 0 \<and>
      t_data (report_for T (results s)) = t_data (report_for T (initial_results 0 [])) \<and>
      (Counted (table_ref T) linkedin_id \<in> set (calls s) \<longrightarrow>
         t_skipped (report_for T (results s)) \<and> t_exists (report_for T (results s))))"

text \<open>The batch files written so far, followed by the batch being filled, hold the
  companies fetched so far.\<close>

definition batched :: "fetch_state \<Rightarrow> bool" where
  "batched s = (concat (map snd (batch_saves s)) @ current_batch s = all_edges s)"


text \<open>
  The outcome of a request is a page that reports a next page: a response that is no auth
  failure, with a parsed body without \<open>errors\<close> that holds the edges and a page info whose
  \<open>hasNextPage\<close> is true and which has an \<open>endCursor\<close>.
\<close>

definition reports_next :: "http_outcome \<Rightarrow> bool" where
  "reports_next out =
     (case out of
        Response status_code (Some data) \<Rightarrow>
          status_code \<noteq> 401 \<and> status_code \<noteq> 403 \<and> py_in ''errors'' data = Inr False \<and>
          (case search_results data of
             Inr sc \<Rightarrow>
               \<not> isl (bind_err (subscript sc ''edges'') iterate) \<and>
               (case subscript sc ''pageInfo'' of
                  Inr page_info \<Rightarrow>
                    (case subscript page_info ''hasNextPage'' of
                       Inr h \<Rightarrow> truthy h \<and> \<not> isl (subscript page_info ''endCursor'')
                     | Inl _ \<Rightarrow> False)
                | Inl _ \<Rightarrow> False)
           | Inl _ \<Rightarrow> False)
      | _ \<Rightarrow> False)"

text \<open>
  What the loop reads from the body of a page, in the order in which it reads it: the
  results, the edges as a list, the page info and its \<open>hasNextPage\<close>; or the first
  exception on the way.
\<close>

definition page_fields :: "json \<Rightarrow> py_error + (json \<times> json list \<times> json \<times> json)" where
  "page_fields data =
     bind_err (search_results data) (\<lambda>sc.
     bind_err (subscript sc ''edges'') (\<lambda>edges.
     bind_err (iterate edges) (\<lambda>es.
     bind_err (subscript sc ''pageInfo'') (\<lambda>page_info.
     bind_err (subscript page_info ''hasNextPage'') (\<lambda>h. Inr (sc, es, page_info, h))))))"

section \<open>Concrete surroundings\<close>

text \<open>A library that prints a str as it is and an int in decimal.\<close>

fun ex_str :: "json \<Rightarrow> string" where
  "ex_str (JStr s) = s"
| "ex_str (JInt i) = int_str i"
| "ex_str _ = ''?''"

definition ex_lib :: pylib where
  "ex_lib = \<lparr>json_dumps = (\<lambda>_. ''[]''), py_str = ex_str, py_int = (\<lambda>_. None), exc_str = (\<lambda>_. ''error'')\<rparr>"

definition ex_notifier :: notifier where
  "ex_notifier = \<lparr>messenger = Some (\<lambda>_. True), sent = []\<rparr>"

text \<open>A service that cannot be reached.\<close>

definition ex_service :: service where
  "ex_service = \<lparr>respond = (\<lambda>_ _. ConnectionFailed), on_day = ''2024-05-01'', pyl = ex_lib\<rparr>"

text \<open>A sync whose person has no education and no experience entries, and whose key is
  known to the experience table only.\<close>

definition ex_env :: sync_env where
  "ex_env = \<lparr>fetch_profile = (\<lambda>_. Inr (JObj [(''education'', JArr []), (''experience'', JArr [])])),
             harmonic = ex_service,
             count_query = (\<lambda>t k. Inr [if t = table_ref ''linkedin_experience'' then 2 else 0]),
             insert_rows_json = (\<lambda>_ _. Inr []),
             year_now = 2024, utcnow_created = ''2024-05-01T10:00:00'',
             utcnow_updated = ''2024-05-01T10:00:00''\<rparr>"

text \<open>The body of a page as the service sends it.\<close>

definition page_body :: "json list \<Rightarrow> json \<Rightarrow> bool \<Rightarrow> string \<Rightarrow> json" where
  "page_body edges reported has_next cursor =
     JObj [(''data'', JObj [(''getSavedSearch'', JObj [(''results'',
       JObj [(''totalCount'', reported),
             (''edges'', JArr edges),
             (''pageInfo'', JObj [(''hasNextPage'', JBool has_next), (''endCursor'', JStr cursor)])])])])]"

definition ex_query :: query where
  "ex_query = QueryData (JObj [(''operationName'', JStr ''GetCompanySavedSearchResults''),
                               (''variables'', JObj [(''idOrUrn'', JStr ''149709''), (''after'', JNull)])])"

text \<open>A saved search of three pages with two, two and one companies, whose pages report
  different totals; the clock advances five seconds per page.\<close>

definition three_pages :: world where
  "three_pages =
     \<lparr>post = (\<lambda>k p. if k = 1 then Response 200 (Some (page_body [JInt 1, JInt 2] (JInt 5) True ''c1''))
                     else if k = 2 then Response 200 (Some (page_body [JInt 3, JInt 4] (JInt 99) True ''c2''))
                     else Response 200 (Some (page_body [JInt 5] (JInt 7) False ''c3''))),
      clock = (\<lambda>k. 5000000 * k), draw = (\<lambda>k. 1 / 2), today = ''2024-05-01'', lib = ex_lib\<rparr>"


text \<open>A saved search whose second request is answered with status 401.\<close>

definition unauthorized_on_page_two :: world where
  "unauthorized_on_page_two =
     \<lparr>post = (\<lambda>k p. if k = 1 then Response 200 (Some (page_body [JInt 1, JInt 2] (JInt 9) True ''c1''))
                     else Response 401 (Some (JObj [(''message'', JStr ''Unauthorized'')]))),
      clock = (\<lambda>k. 5000000 * k), draw = (\<lambda>k. 1 / 2), today = ''2024-05-01'', lib = ex_lib\<rparr>"

text \<open>A service that answers every request with status 401 and a JSON object.\<close>

definition always_unauthorized :: world where
  "always_unauthorized =
     \<lparr>post = (\<lambda>k p. Response 401 (Some (JObj [(''message'', JStr ''Unauthorized'')]))),
      clock = (\<lambda>k. 5000000 * k), draw = (\<lambda>k. 1 / 2), today = ''2024-05-01'', lib = ex_lib\<rparr>"

text \<open>A service that answers with status 500 and the body of a last page.\<close>

definition server_error_with_page :: world where
  "server_error_with_page =
     \<lparr>post = (\<lambda>k p. Response 500 (Some (page_body [JInt 1] (JInt 1) False ''c1''))),
      clock = (\<lambda>k. 5000000 * k), draw = (\<lambda>k. 1 / 2), today = ''2024-05-01'', lib = ex_lib\<rparr>"

text \<open>A response whose results have a total and a page info, but no \<open>edges\<close>.\<close>

definition body_without_edges :: json where
  "body_without_edges =
     JObj [(''data'', JObj [(''getSavedSearch'', JObj [(''results'',
       JObj [(''totalCount'', JInt 0),
             (''pageInfo'', JObj [(''hasNextPage'', JBool False), (''endCursor'', JNull)])])])])]"

definition page_without_edges :: world where
  "page_without_edges =
     \<lparr>post = (\<lambda>k p. Response 200 (Some body_without_edges)),
      clock = (\<lambda>k. 5000000 * k), draw = (\<lambda>k. 1 / 2), today = ''2024-05-01'', lib = ex_lib\<rparr>"

text \<open>A last page without \<open>totalCount\<close>.\<close>

definition body_without_total :: json where
  "body_without_total =
     JObj [(''data'', JObj [(''getSavedSearch'', JObj [(''results'',
       JObj [(''edges'', JArr [JInt 1]),
             (''pageInfo'', JObj [(''hasNextPage'', JBool False), (''endCursor'', JNull)])])])])]"

definition page_without_total :: world where
  "page_without_total =
     \<lparr>post = (\<lambda>k p. Response 200 (Some body_without_total)),
      clock = (\<lambda>k. 5000000 * k), draw = (\<lambda>k. 1 / 2), today = ''2024-05-01'', lib = ex_lib\<rparr>"

text \<open>
  Three pages fetched slowly. The run starts at second 0. The delay before page 2 reads the
  clock at second 200 and sleeps 180 seconds, until second 380; the delay before page 3
  reads the clock at second 385, five seconds after that break ended.
\<close>

definition slow_run :: world where
  "slow_run =
     \<lparr>post = (\<lambda>k p. Response 200 (Some (page_body [JInt k] (JInt 3) (k < 3) ''c''))),
      clock = (\<lambda>k. if k = 1 then 0 else if k = 2 then 200000000 else 385000000),
      draw = (\<lambda>k. 0), today = ''2024-05-01'', lib = ex_lib\<rparr>"

text \<open>A detail service whose every answer has status 200 and a body with \<open>errors\<close>.\<close>

definition graphql_errors :: "(string \<times> json) list" where
  "graphql_errors = [(''errors'', JArr [JObj [(''message'', JStr ''Person not found'')]]), (''data'', JNull)]"

definition failing_service :: service where
  "failing_service = \<lparr>respond = (\<lambda>_ _. Response 200 (Some (JObj graphql_errors))),
                       on_day = ''2024-05-01'', pyl = ex_lib\<rparr>"

section \<open>The sync skips a table that has the key\<close>

lemma table_ref_inj [simp]: "table_ref a = table_ref b \<longleftrightarrow> a = b"
  by (simp add: table_ref_def)

lemma skip_kept_frame:
  assumes "skip_kept T lid s" and "calls s' = calls s @ extra"
    and "\<forall>c \<in> set extra. \<not> inserts_into T c \<and> \<not> transforms_for T c \<and> c \<noteq> Counted (table_ref T) lid"
    and "report_for T (results s') = report_for T (results s)"
  shows "skip_kept T lid s'"
  using assms by (auto simp: skip_kept_def list_ex_iff)

lemma skip_kept_own:
  assumes "skip_kept T lid s" and "calls s' = calls s @ [Counted (table_ref T) lid]"
    and "report_for T (results s') = (report_for T (results s))\<lparr>t_exists := True, t_skipped := True\<rparr>"
  shows "skip_kept T lid s'"
  using assms by (auto simp: skip_kept_def list_ex_iff)

lemma sync_mapping_frame:
  "\<exists>extra. calls (snd (sync_mapping E hid lid full_name dry s)) = calls s @ extra
     \<and> set extra \<subseteq> {Counted (table_ref ''linkedin_harmonic_mapping'') lid} \<union> range (Inserted (table_ref ''linkedin_harmonic_mapping''))"
  "r_education (results (snd (sync_mapping E hid lid full_name dry s))) = r_education (results s)"
  "r_experience (results (snd (sync_mapping E hid lid full_name dry s))) = r_experience (results s)"
  "r_profile (results (snd (sync_mapping E hid lid full_name dry s))) = r_profile (results s)"
  by (auto simp: sync_mapping_def check_mapping_exists_def insert_mapping_def insert_into_def
        set_mapping_def split: sum.splits bool.splits prod.splits)

lemma sync_education_frame:
  "\<exists>extra. calls (snd (sync_education E el lid dry s)) = calls s @ extra
     \<and> set extra \<subseteq> {Counted (table_ref ''linkedin_education'') lid, Transformed (table_ref ''linkedin_education'')}
          \<union> range (Inserted (table_ref ''linkedin_education''))"
  "r_experience (results (snd (sync_education E el lid dry s))) = r_experience (results s)"
  "r_profile (results (snd (sync_education E el lid dry s))) = r_profile (results s)"
  by (auto simp: sync_education_def check_user_exists_def insert_education_def insert_into_def Let_def
        set_education_def split: sum.splits bool.splits prod.splits)

lemma sync_experience_frame:
  "\<exists>extra. calls (snd (sync_experience E el lid dry s)) = calls s @ extra
     \<and> set extra \<subseteq> {Counted (table_ref ''linkedin_experience'') lid, Transformed (table_ref ''linkedin_experience'')}
          \<union> range (Inserted (table_ref ''linkedin_experience''))"
  "r_education (results (snd (sync_experience E el lid dry s))) = r_education (results s)"
  "r_profile (results (snd (sync_experience E el lid dry s))) = r_profile (results s)"
  by (auto simp: sync_experience_def check_user_exists_def insert_experience_def insert_into_def Let_def
        set_experience_def split: sum.splits bool.splits prod.splits)

lemma sync_profile_frame:
  "\<exists>extra. calls (snd (sync_profile E hid lid el xl dry s)) = calls s @ extra
     \<and> set extra \<subseteq> {Counted (table_ref ''linkedin_profile'') lid, Transformed (table_ref ''linkedin_profile'')}
          \<union> range (Inserted (table_ref ''linkedin_profile''))"
  "r_education (results (snd (sync_profile E hid lid el xl dry s))) = r_education (results s)"
  "r_experience (results (snd (sync_profile E hid lid el xl dry s))) = r_experience (results s)"
  by (auto simp: sync_profile_def check_user_exists_def insert_profile_def insert_into_def Let_def
        set_profile_def split: sum.splits bool.splits prod.splits)

lemma sync_education_own:
  assumes "count_query E (table_ref ''linkedin_education'') lid = Inr rows" "first_count_positive rows"
  shows "sync_education E el lid dry s =
     (None, set_education (\<lambda>t. t\<lparr>t_exists := True, t_skipped := True\<rparr>)
              (s\<lparr>calls := calls s @ [Counted (table_ref ''linkedin_education'') lid]\<rparr>))"
  using assms by (simp add: sync_education_def check_user_exists_def bind_err_def)

lemma sync_experience_own:
  assumes "count_query E (table_ref ''linkedin_experience'') lid = Inr rows" "first_count_positive rows"
  shows "sync_experience E el lid dry s =
     (None, set_experience (\<lambda>t. t\<lparr>t_exists := True, t_skipped := True\<rparr>)
              (s\<lparr>calls := calls s @ [Counted (table_ref ''linkedin_experience'') lid]\<rparr>))"
  using assms by (simp add: sync_experience_def check_user_exists_def bind_err_def)

lemma sync_profile_own:
  assumes "count_query E (table_ref ''linkedin_profile'') lid = Inr rows" "first_count_positive rows"
  shows "sync_profile E hid lid el xl dry s =
     (None, set_profile (\<lambda>t. t\<lparr>t_exists := True, t_skipped := True\<rparr>)
              (s\<lparr>calls := calls s @ [Counted (table_ref ''linkedin_profile'') lid]\<rparr>))"
  using assms by (simp add: sync_profile_def check_user_exists_def bind_err_def)


lemma keep_mapping:
  assumes "T \<in> set content_tables" "skip_kept T lid s"
  shows "skip_kept T lid (snd (sync_mapping E hid lid full_name dry s))"
proof -
  obtain extra where e: "calls (snd (sync_mapping E hid lid full_name dry s)) = calls s @ extra"
    "set extra \<subseteq> {Counted (table_ref ''linkedin_harmonic_mapping'') lid} \<union> range (Inserted (table_ref ''linkedin_harmonic_mapping''))"
    using sync_mapping_frame(1) by blast
  have r: "report_for T (results (snd (sync_mapping E hid lid full_name dry s))) = report_for T (results s)"
    by (simp add: report_for_def sync_mapping_frame)
  have f: "\<forall>c \<in> set extra. \<not> inserts_into T c \<and> \<not> transforms_for T c \<and> c \<noteq> Counted (table_ref T) lid"
    using e(2) assms(1) by (auto simp: content_tables_def)
  show ?thesis by (rule skip_kept_frame [OF assms(2) e(1) f r])
qed

lemma keep_education:
  assumes "T \<in> set content_tables" "skip_kept T lid s"
    "count_query E (table_ref T) lid = Inr rows" "first_count_positive rows"
  shows "skip_kept T lid (snd (sync_education E el lid dry s))"
proof (cases "T = ''linkedin_education''")
  case True
  show ?thesis
    using assms(3,4) unfolding True
    by (intro skip_kept_own [OF assms(2) [unfolded True]])
       (simp_all add: sync_education_own set_education_def report_for_def)
next
  case False
  obtain extra where e: "calls (snd (sync_education E el lid dry s)) = calls s @ extra"
    "set extra \<subseteq> {Counted (table_ref ''linkedin_education'') lid, Transformed (table_ref ''linkedin_education'')}
          \<union> range (Inserted (table_ref ''linkedin_education''))"
    using sync_education_frame(1) by blast
  have r: "report_for T (results (snd (sync_education E el lid dry s))) = report_for T (results s)"
    using False by (simp add: report_for_def sync_education_frame)
  have f: "\<forall>c \<in> set extra. \<not> inserts_into T c \<and> \<not> transforms_for T c \<and> c \<noteq> Counted (table_ref T) lid"
    using e(2) False by auto
  show ?thesis by (rule skip_kept_frame [OF assms(2) e(1) f r])
qed

lemma keep_experience:
  assumes "T \<in> set content_tables" "skip_kept T lid s"
    "count_query E (table_ref T) lid = Inr rows" "first_count_positive rows"
  shows "skip_kept T lid (snd (sync_experience E el lid dry s))"
proof (cases "T = ''linkedin_experience''")
  case True
  show ?thesis
    using assms(3,4) unfolding True
    by (intro skip_kept_own [OF assms(2) [unfolded True]])
       (simp_all add: sync_experience_own set_experience_def report_for_def)
next
  case False
  obtain extra where e: "calls (snd (sync_experience E el lid dry s)) = calls s @ extra"
    "set extra \<subseteq> {Counted (table_ref ''linkedin_experience'') lid, Transformed (table_ref ''linkedin_experience'')}
          \<union> range (Inserted (table_ref ''linkedin_experience''))"
    using sync_experience_frame(1) by blast
  have r: "report_for T (results (snd (sync_experience E el lid dry s))) = report_for T (results s)"
    using False by (simp add: report_for_def sync_experience_frame)
  have f: "\<forall>c \<in> set extra. \<not> inserts_into T c \<and> \<not> transforms_for T c \<and> c \<noteq> Counted (table_ref T) lid"
    using e(2) False by auto
  show ?thesis by (rule skip_kept_frame [OF assms(2) e(1) f r])
qed

lemma keep_profile:
  assumes "T \<in> set content_tables" "skip_kept T lid s"
    "count_query E (table_ref T) lid = Inr rows" "first_count_positive rows"
  shows "skip_kept T lid (snd (sync_profile E hid lid el xl dry s))"
proof (cases "T = ''linkedin_profile''")
  case True
  show ?thesis
    using assms(3,4) unfolding True
    by (intro skip_kept_own [OF assms(2) [unfolded True]])
       (simp_all add: sync_profile_own set_profile_def report_for_def)
next
  case False
  obtain extra where e: "calls (snd (sync_profile E hid lid el xl dry s)) = calls s @ extra"
    "set extra \<subseteq> {Counted (table_ref ''linkedin_profile'') lid, Transformed (table_ref ''linkedin_profile'')}
          \<union> range (Inserted (table_ref ''linkedin_profile''))"
    using sync_profile_frame(1) by blast
  have r: "report_for T (results (snd (sync_profile E hid lid el xl dry s))) = report_for T (results s)"
    using False assms(1) by (auto simp: report_for_def sync_profile_frame content_tables_def)
  have f: "\<forall>c \<in> set extra. \<not> inserts_into T c \<and> \<not> transforms_for T c \<and> c \<noteq> Counted (table_ref T) lid"
    using e(2) False by auto
  show ?thesis by (rule skip_kept_frame [OF assms(2) e(1) f r])
qed

lemma keep_and_then:
  assumes "skip_kept T lid s" "\<And>t. skip_kept T lid t \<Longrightarrow> skip_kept T lid (snd (f t))"
    "\<And>t. skip_kept T lid t \<Longrightarrow> skip_kept T lid (snd (g t))"
  shows "skip_kept T lid (snd (and_then f g s))"
proof (cases "f s")
  case (Pair r t)
  with assms(2) [OF assms(1)] have t: "skip_kept T lid t" by simp
  show ?thesis
  proof (cases r)
    case None
    with Pair assms(3) [OF t] show ?thesis by (simp add: and_then_def)
  next
    case (Some e)
    with Pair t show ?thesis by (simp add: and_then_def)
  qed
qed


lemma and_then_None:
  assumes "and_then f g s = (None, s')"
  shows "\<exists>s1. f s = (None, s1) \<and> g s1 = (None, s')"
  using assms by (auto simp: and_then_def split: prod.splits option.splits)

lemma sync_education_counted:
  assumes "sync_education E el lid dry s = (None, s')"
  shows "Counted (table_ref ''linkedin_education'') lid \<in> set (calls s')"
  using assms
  by (auto simp: sync_education_def check_user_exists_def insert_education_def insert_into_def Let_def
        set_education_def split: sum.splits bool.splits prod.splits if_splits)

lemma sync_experience_counted:
  assumes "sync_experience E el lid dry s = (None, s')"
  shows "Counted (table_ref ''linkedin_experience'') lid \<in> set (calls s')"
  using assms
  by (auto simp: sync_experience_def check_user_exists_def insert_experience_def insert_into_def Let_def
        set_experience_def split: sum.splits bool.splits prod.splits if_splits)

lemma sync_profile_counted:
  assumes "sync_profile E hid lid el xl dry s = (None, s')"
  shows "Counted (table_ref ''linkedin_profile'') lid \<in> set (calls s')"
  using assms
  by (auto simp: sync_profile_def check_user_exists_def insert_profile_def insert_into_def Let_def
        set_profile_def split: sum.splits bool.splits prod.splits if_splits)

lemma calls_grow:
  "set (calls s) \<subseteq> set (calls (snd (sync_experience E xl lid dry s)))"
  "set (calls s) \<subseteq> set (calls (snd (sync_profile E hid lid el xl dry s)))"
  using sync_experience_frame(1) [of E xl lid dry s] sync_profile_frame(1) [of E hid lid el xl dry s]
  by auto

lemma returned_reached:
  assumes run: "sync_person E n harmonic_id linkedin_id dry_run verbose = (None, s)"
    and fetched: "\<not> isl (fetch_profile E harmonic_id)"
    and T: "T \<in> set content_tables"
  shows "Counted (table_ref T) linkedin_id \<in> set (calls s)"
proof -
  from fetched obtain profile_data where p: "fetch_profile E harmonic_id = Inr profile_data"
    by (cases "fetch_profile E harmonic_id") auto
  from run p obtain full_name el xl s0 where chain:
    "and_then (sync_mapping E harmonic_id linkedin_id full_name dry_run)
       (and_then (sync_education E el linkedin_id dry_run)
          (and_then (sync_experience E xl linkedin_id dry_run)
             (sync_profile E harmonic_id linkedin_id el xl dry_run))) s0 = (None, s)"
    by (auto simp: sync_person_def Let_def split: sum.splits prod.splits)
  from and_then_None [OF chain] obtain s1 where
    c1: "and_then (sync_education E el linkedin_id dry_run)
          (and_then (sync_experience E xl linkedin_id dry_run)
             (sync_profile E harmonic_id linkedin_id el xl dry_run)) s1 = (None, s)"
    by blast
  from and_then_None [OF c1] obtain s2 where
    edu: "sync_education E el linkedin_id dry_run s1 = (None, s2)" and
    c2: "and_then (sync_experience E xl linkedin_id dry_run)
             (sync_profile E harmonic_id linkedin_id el xl dry_run) s2 = (None, s)"
    by blast
  from and_then_None [OF c2] obtain s3 where
    xp: "sync_experience E xl linkedin_id dry_run s2 = (None, s3)" and
    pr: "sync_profile E harmonic_id linkedin_id el xl dry_run s3 = (None, s)"
    by blast
  have g3: "set (calls s3) \<subseteq> set (calls s)"
    using calls_grow(2) [of s3 E harmonic_id linkedin_id el xl dry_run] pr by simp
  have g2: "set (calls s2) \<subseteq> set (calls s3)"
    using calls_grow(1) [of s2 E xl linkedin_id dry_run] xp by simp
  from T consider "T = ''linkedin_education''" | "T = ''linkedin_experience''" | "T = ''linkedin_profile''"
    by (auto simp: content_tables_def)
  then show ?thesis
  proof cases
    case 1
    with sync_education_counted [OF edu] g2 g3 show ?thesis by blast
  next
    case 2
    with sync_experience_counted [OF xp] g3 show ?thesis by blast
  next
    case 3
    with sync_profile_counted [OF pr] show ?thesis by blast
  qed
qed

lemma sync_person_skip_kept:
  assumes "T \<in> set content_tables"
    and "count_query E (table_ref T) linkedin_id = Inr rows" and "first_count_positive rows"
  shows "skip_kept T linkedin_id (snd (sync_person E n harmonic_id linkedin_id dry_run verbose))"
proof -
  have init: "skip_kept T linkedin_id
      \<lparr>results = (initial_results harmonic_id linkedin_id)\<lparr>r_errors := er\<rparr>, calls = [], sync_notifier = n'\<rparr>" for er n'
    by (simp add: skip_kept_def initial_results_def report_for_def)
  have init0: "skip_kept T linkedin_id
      \<lparr>results = initial_results harmonic_id linkedin_id, calls = [], sync_notifier = n'\<rparr>" for n'
    by (simp add: skip_kept_def initial_results_def report_for_def)
  have chain: "skip_kept T linkedin_id
     (snd (and_then (sync_mapping E harmonic_id linkedin_id full_name dry_run)
             (and_then (sync_education E el linkedin_id dry_run)
               (and_then (sync_experience E xl linkedin_id dry_run)
                 (sync_profile E harmonic_id linkedin_id el xl dry_run))) s))"
    if "skip_kept T linkedin_id s" for s full_name el xl
    by (intro keep_and_then that keep_mapping [OF assms(1)] keep_education [OF assms(1) _ assms(2) assms(3)]
          keep_experience [OF assms(1) _ assms(2) assms(3)] keep_profile [OF assms(1) _ assms(2) assms(3)])
  show ?thesis
  proof (cases "fetch_profile E harmonic_id")
    case (Inl e)
    then show ?thesis using init by (simp add: sync_person_def)
  next
    case (Inr profile_data)
    show ?thesis
    proof (cases "bind_err (dict_get profile_data ''education'' (JArr [])) (\<lambda>education_list.
                bind_err (dict_get profile_data ''experience'' (JArr [])) (\<lambda>experience_list.
                bind_err (py_len education_list) (\<lambda>_.
                bind_err (py_len experience_list) (\<lambda>_. Inr (education_list, experience_list)))))")
      case (Inl e)
      with Inr show ?thesis using init0 by (simp add: sync_person_def)
    next
      case lists: (Inr p)
      obtain el xl where p: "p = (el, xl)" by (cases p)
      show ?thesis
        using Inr lists p
        by (simp add: sync_person_def Let_def split: prod.splits) (auto intro!: chain init0)
    qed
  qed
qed

text \<open>
  Claim C9. For each of the three content tables: when the warehouse answers the existence
  query for the key with a positive count, \<open>sync_person\<close> makes no insert into that table
  and no transform for it, whatever the fetched profile holds and whether the method
  returns or raises; the entry of that table keeps \<open>inserted = 0\<close> and its initial data;
  once the query has been made the entry is marked \<open>exists\<close> and \<open>skipped\<close>, and it is so
  marked whenever the method returns after a successful fetch.
\<close>

theorem sync_person_skips_existing_table:
  assumes "T \<in> set content_tables"
    and "count_query E (table_ref T) linkedin_id = Inr rows" and "first_count_positive rows"
    and "sync_person E n harmonic_id linkedin_id dry_run verbose = (raised, s)"
  shows "\<not> list_ex (inserts_into T) (calls s) \<and>
         \<not> list_ex (transforms_for T) (calls s) \<and>
         t_inserted (report_for T (results s)) = 0 \<and>
         t_data (report_for T (results s)) = t_data (report_for T (initial_results harmonic_id linkedin_id)) \<and>
         (Counted (table_ref T) linkedin_id \<in> set (calls s) \<longrightarrow>
            t_skipped (report_for T (results s)) \<and> t_exists (report_for T (results s))) \<and>
         (raised = None \<and> \<not> isl (fetch_profile E harmonic_id) \<longrightarrow>
            t_skipped (report_for T (results s)) \<and> t_exists (report_for T (results s)))"
proof -
  have kept: "skip_kept T linkedin_id s"
    using sync_person_skip_kept [OF assms(1-3), of n harmonic_id dry_run verbose] assms(4) by simp
  have reached: "Counted (table_ref T) linkedin_id \<in> set (calls s)"
    if "raised = None" "\<not> isl (fetch_profile E harmonic_id)"
    using returned_reached [OF _ that(2) assms(1)] assms(4) that(1) by simp
  have same: "t_data (report_for T (initial_results 0 [])) = t_data (report_for T (initial_results harmonic_id linkedin_id))"
    by (simp add: report_for_def initial_results_def)
  from kept reached same show ?thesis
    by (auto simp: skip_kept_def)
qed

theorem sync_person_skips_existing_table_witness:
  "''linkedin_experience'' \<in> set content_tables \<and>
   count_query ex_env (table_ref ''linkedin_experience'') ''a-b'' = Inr [2] \<and>
   first_count_positive [2] \<and>
   fst (sync_person ex_env ex_notifier 7 ''a-b'' False False) = None \<and>
   \<not> isl (fetch_profile ex_env 7) \<and>
   \<not> list_ex (inserts_into ''linkedin_experience'')
        (calls (snd (sync_person ex_env ex_notifier 7 ''a-b'' False False))) \<and>
   \<not> list_ex (transforms_for ''linkedin_experience'')
        (calls (snd (sync_person ex_env ex_notifier 7 ''a-b'' False False))) \<and>
   t_skipped (r_experience (results (snd (sync_person ex_env ex_notifier 7 ''a-b'' False False)))) \<and>
   t_inserted (r_experience (results (snd (sync_person ex_env ex_notifier 7 ''a-b'' False False)))) = 0"
proof -
  have h1: "''linkedin_experience'' \<in> set content_tables" by (simp add: content_tables_def)
  have h2: "count_query ex_env (table_ref ''linkedin_experience'') ''a-b'' = Inr [2]"
    by (simp add: ex_env_def)
  have h3: "first_count_positive [2]" by (simp add: first_count_positive_def)
  have h4: "sync_person ex_env ex_notifier 7 ''a-b'' False False =
      (fst (sync_person ex_env ex_notifier 7 ''a-b'' False False),
       snd (sync_person ex_env ex_notifier 7 ''a-b'' False False))" by simp
  have r: "fst (sync_person ex_env ex_notifier 7 ''a-b'' False False) = None" by code_simp
  have f: "\<not> isl (fetch_profile ex_env 7)" by (simp add: ex_env_def)
  from sync_person_skips_existing_table [OF h1 h2 h3 h4] h1 h2 h3 r f show ?thesis
    by (simp add: report_for_def)
qed

text \<open>
  Claim C10. When \<open>get_full_profile\<close> of the client raises, \<open>sync_person\<close> returns at once:
  the results hold one error message, every table entry is as initialised
  (\<open>inserted = 0\<close>, \<open>skipped = False\<close>), and no existence query, transform or insert was
  made, so the warehouse is as before.
\<close>

theorem sync_person_fetch_failure:
  assumes "fetch_profile E harmonic_id = Inl e"
  shows "fst (sync_person E n harmonic_id linkedin_id dry_run verbose) = None \<and>
         r_errors (results (snd (sync_person E n harmonic_id linkedin_id dry_run verbose))) =
           [''Failed to fetch from Harmonic: '' @ exc_str (pyl (harmonic E)) e] \<and>
         list_all (\<lambda>entry. t_inserted (entry (results (snd (sync_person E n harmonic_id linkedin_id dry_run verbose)))) = 0 \<and>
                           \<not> t_skipped (entry (results (snd (sync_person E n harmonic_id linkedin_id dry_run verbose)))))
           [r_mapping, r_education, r_experience, r_profile] \<and>
         calls (snd (sync_person E n harmonic_id linkedin_id dry_run verbose)) = [] \<and>
         sync_notifier (snd (sync_person E n harmonic_id linkedin_id dry_run verbose)) = n"
  using assms by (simp add: sync_person_def initial_results_def)

theorem sync_person_fetch_failure_witness:
  "fetch_profile (ex_env\<lparr>fetch_profile := (\<lambda>_. Inl ConnectionError)\<rparr>) 7 = Inl ConnectionError \<and>
   fst (sync_person (ex_env\<lparr>fetch_profile := (\<lambda>_. Inl ConnectionError)\<rparr>) ex_notifier 7 ''a-b'' False False) = None \<and>
   r_errors (results (snd (sync_person (ex_env\<lparr>fetch_profile := (\<lambda>_. Inl ConnectionError)\<rparr>) ex_notifier 7 ''a-b'' False False)))
     = [''Failed to fetch from Harmonic: error''] \<and>
   calls (snd (sync_person (ex_env\<lparr>fetch_profile := (\<lambda>_. Inl ConnectionError)\<rparr>) ex_notifier 7 ''a-b'' False False)) = []"
proof -
  have h: "fetch_profile (ex_env\<lparr>fetch_profile := (\<lambda>_. Inl ConnectionError)\<rparr>) 7 = Inl ConnectionError"
    by simp
  from sync_person_fetch_failure [OF h, of ex_notifier "''a-b''" False False] h show ?thesis
    by (simp add: ex_env_def ex_service_def ex_lib_def)
qed


text \<open>The client of the repository catches the exceptions of its three sub-fetches, so with
  it \<open>get_full_profile\<close> returns a profile.\<close>

lemma full_profile_client_returns:
  "\<not> isl (fetch_profile (with_full_profile_client v cn E) person_id)"
  by (simp add: with_full_profile_client_def)


section \<open>The flushed batches make up the records fetched\<close>

lemma collect_edges_batched:
  assumes "collect_edges batch_size data s = Inr (sc, s')" "batched s"
  shows "batched s'"
  using assms
  by (auto simp: collect_edges_def bind_err_def Let_def batched_def save_companies_to_json_def
      split: sum.splits if_splits)

lemma paginate_kept:
  "all_edges (snd (paginate w max_pages start_time llb sc s)) = all_edges s"
  "current_batch (snd (paginate w max_pages start_time llb sc s)) = current_batch s"
  "batch_saves (snd (paginate w max_pages start_time llb sc s)) = batch_saves s"
  "total_count (snd (paginate w max_pages start_time llb sc s)) = total_count s"
  by (auto simp: paginate_def Let_def split: sum.splits)

lemma paginate_batched: "batched s \<Longrightarrow> batched (snd (paginate w max_pages start_time llb sc s))"
  by (simp add: batched_def paginate_kept)

lemma iteration_batched:
  assumes "batched s"
  shows "batched (snd (iteration w max_pages batch_size start_time llb s))"
proof -
  have b0: "batched (s\<lparr>posted := p, error_notifier := n\<rparr>)" for p n
    using assms by (simp add: batched_def)
  have b1: "batched (s\<lparr>posted := p\<rparr>)" for p
    using assms by (simp add: batched_def)
  show ?thesis
    unfolding iteration_def Let_def
    by (auto split: http_outcome.splits option.splits sum.splits prod.splits bool.splits
        intro!: paginate_batched b0 b1 elim!: collect_edges_batched)
qed

lemma fetch_loop_batched:
  "batched s \<Longrightarrow> batched (snd (fetch_loop w max_pages batch_size start_time llb s))"
proof (induction w max_pages batch_size start_time llb s rule: fetch_loop.induct)
  case (1 w max_pages batch_size start_time llb s)
  obtain r s' where it: "iteration w max_pages batch_size start_time llb s = (r, s')"
    by (cases "iteration w max_pages batch_size start_time llb s")
  have b: "batched s'" using iteration_batched [OF "1.prems", of w max_pages batch_size start_time llb] it by simp
  show ?case
  proof (cases r)
    case Continue
    with "1.IH" [OF it [symmetric]] b it show ?thesis
      by (subst fetch_loop.simps) simp
  next
    case (Break x)
    with b it show ?thesis by (subst fetch_loop.simps) simp
  next
    case (Raise e)
    with b it show ?thesis by (subst fetch_loop.simps) simp
  qed
qed

text \<open>
  Claim C3. For a batch size of at least one and whatever the pages hold, when the method
  returns, the companies of the batch files written (those written inside the loop and the
  one written for the remainder after it), put together in the order of writing, are
  exactly the companies returned: nothing lost, nothing twice, the order kept.
\<close>

theorem flushed_batches_are_all_records:
  assumes "1 \<le> batch_size"
    and "get_company_saved_search_results w n query max_pages batch_size = (Inr (x, r), s)"
  shows "concat (map snd (batch_saves s)) = res_companies r"
proof -
  have "batched (initial_state n query)" by (simp add: batched_def initial_state_def)
  from fetch_loop_batched [OF this, of w max_pages batch_size "clock w 1" "clock w 1"]
  have "batched (snd (fetch_loop w max_pages batch_size (clock w 1) (clock w 1) (initial_state n query)))" .
  with assms(2) show ?thesis
    by (auto simp: get_company_saved_search_results_def after_loop_def Let_def batched_def
          save_companies_to_json_def save_all_companies_to_json_def
          split: prod.splits sum.splits if_splits)
qed

theorem flushed_batches_are_all_records_witness:
  "(1::int) \<le> 2 \<and>
   fst (get_company_saved_search_results three_pages ex_notifier ex_query 10 2) =
     Inr (Exhausted, \<lparr>res_total_count = JInt 5,
                      res_companies = [JInt 1, JInt 2, JInt 3, JInt 4, JInt 5],
                      res_pages_fetched = 3\<rparr>) \<and>
   concat (map snd (batch_saves (snd (get_company_saved_search_results three_pages ex_notifier ex_query 10 2))))
     = [JInt 1, JInt 2, JInt 3, JInt 4, JInt 5]"
proof -
  have h1: "(1::int) \<le> 2" by simp
  have e: "fst (get_company_saved_search_results three_pages ex_notifier ex_query 10 2) =
     Inr (Exhausted, \<lparr>res_total_count = JInt 5,
                      res_companies = [JInt 1, JInt 2, JInt 3, JInt 4, JInt 5],
                      res_pages_fetched = 3\<rparr>)"
    by code_simp
  then have h2: "get_company_saved_search_results three_pages ex_notifier ex_query 10 2 =
     (Inr (Exhausted, \<lparr>res_total_count = JInt 5,
                      res_companies = [JInt 1, JInt 2, JInt 3, JInt 4, JInt 5],
                      res_pages_fetched = 3\<rparr>),
      snd (get_company_saved_search_results three_pages ex_notifier ex_query 10 2))"
    by (simp add: prod_eq_iff)
  from flushed_batches_are_all_records [OF h1 h2] h1 e show ?thesis by simp
qed


section \<open>The page limit\<close>

lemma check_passes:
  assumes "status_code \<noteq> 401" "status_code \<noteq> 403" "py_in ''errors'' data = Inr False"
  shows "check_and_notify_error L day (Some status_code) data n = Inr (False, n)"
  using assms by (simp add: check_and_notify_error_def bind_err_def)



lemma collect_edges_fields:
  assumes "collect_edges batch_size data s = Inr (sc, s')"
  shows "page s' = page s" "payload s' = payload s" "posted s' = posted s" "search_results data = Inr sc"
    "sleeps s' = sleeps s" "error_notifier s' = error_notifier s"
  using assms
  by (auto simp: collect_edges_def bind_err_def Let_def save_companies_to_json_def
      split: sum.splits if_splits)

lemma collect_edges_succeeds:
  assumes "search_results data = Inr sc" "\<not> isl (bind_err (subscript sc ''edges'') iterate)"
  shows "\<exists>s'. collect_edges batch_size data s = Inr (sc, s')"
proof -
  from assms(2) obtain edges where e1: "subscript sc ''edges'' = Inr edges"
    by (cases "subscript sc ''edges''") (auto simp: bind_err_def)
  with assms(2) obtain es where e2: "iterate edges = Inr es"
    by (cases "iterate edges") (auto simp: bind_err_def)
  note e = e1 e2
  from e(1) obtain kvs where sc: "sc = JObj kvs" by (cases sc) auto
  show ?thesis
    using assms(1) e
    by (auto simp: collect_edges_def bind_err_def Let_def sc split: option.splits)
qed






text \<open>A query string gives a payload without \<open>variables\<close>: when the first page reports a
  next page and more than one page is allowed, storing the cursor raises \<open>KeyError\<close>.\<close>

lemma iteration_without_variables:
  assumes "reports_next (post w (page s) (payload s))"
    and "subscript (payload s) ''variables'' = Inl KeyError" and "page s < max_pages"
  shows "fst (iteration w max_pages batch_size start_time llb s) = Raise KeyError"
proof -
  from assms(1) obtain status_code data where
    out: "post w (page s) (payload s) = Response status_code (Some data)"
    by (auto simp: reports_next_def split: http_outcome.splits option.splits)
  with assms(1) have st: "status_code \<noteq> 401" "status_code \<noteq> 403" "py_in ''errors'' data = Inr False"
    by (auto simp: reports_next_def)
  from assms(1) out obtain sc where sc: "search_results data = Inr sc"
    by (auto simp: reports_next_def split: sum.splits)
  with assms(1) out have ed: "\<not> isl (bind_err (subscript sc ''edges'') iterate)"
    by (auto simp: reports_next_def)
  from assms(1) out sc obtain page_info h cursor where
    pi: "subscript sc ''pageInfo'' = Inr page_info" "subscript page_info ''hasNextPage'' = Inr h"
      "truthy h" "subscript page_info ''endCursor'' = Inr cursor"
    by (auto simp: reports_next_def split: sum.splits) (metis isl_def sum.collapse(2))
  let ?s0 = "s\<lparr>posted := posted s @ [payload s]\<rparr>"
  from collect_edges_succeeds [OF sc ed] obtain s1 where
    c: "collect_edges batch_size data ?s0 = Inr (sc, s1)" by blast
  note f = collect_edges_fields [OF c]
  have it: "iteration w max_pages batch_size start_time llb s =
      paginate w max_pages start_time llb sc s1"
    using out st c by (simp add: iteration_def Let_def check_passes)
  show ?thesis
    unfolding it using pi f assms(2,3)
    by (simp add: paginate_def bind_err_def set_after_def)
qed

lemma query_string_second_page_raises:
  assumes "reports_next (post w 1 (payload_of (QueryStr q)))" "1 < max_pages"
  shows "fst (get_company_saved_search_results w n (QueryStr q) max_pages batch_size) = Inl KeyError"
proof -
  let ?s = "initial_state n (QueryStr q)"
  have "fst (iteration w max_pages batch_size (clock w 1) (clock w 1) ?s) = Raise KeyError"
    using assms by (intro iteration_without_variables) (simp_all add: initial_state_def payload_of_def)
  then obtain s' where "iteration w max_pages batch_size (clock w 1) (clock w 1) ?s = (Raise KeyError, s')"
    by (cases "iteration w max_pages batch_size (clock w 1) (clock w 1) ?s") simp
  then have "fst (fetch_loop w max_pages batch_size (clock w 1) (clock w 1) ?s) = Inl KeyError"
    by (subst fetch_loop.simps) simp
  then obtain t where "fetch_loop w max_pages batch_size (clock w 1) (clock w 1) ?s = (Inl KeyError, t)"
    by (cases "fetch_loop w max_pages batch_size (clock w 1) (clock w 1) ?s") simp
  then show ?thesis
    by (simp add: get_company_saved_search_results_def after_loop_def Let_def)
qed


section \<open>The total count\<close>

lemma fetch_loop_total_count:
  "total_count s \<noteq> JNull \<Longrightarrow>
   total_count (snd (fetch_loop w max_pages batch_size start_time llb s)) = total_count s"
proof (induction w max_pages batch_size start_time llb s rule: fetch_loop.induct)
  case (1 w max_pages batch_size start_time llb s)
  obtain r s' where it: "iteration w max_pages batch_size start_time llb s = (r, s')"
    by (cases "iteration w max_pages batch_size start_time llb s")
  have collect: "total_count t' = total_count t"
    if "collect_edges batch_size data t = Inr (sc, t')" "total_count t \<noteq> JNull" for data t sc t'
    using that
    by (auto simp: collect_edges_def bind_err_def Let_def save_companies_to_json_def
        split: sum.splits if_splits)
  have tc: "total_count s' = total_count s"
    using it "1.prems"
    by (auto simp: iteration_def Let_def paginate_kept
        split: http_outcome.splits option.splits sum.splits prod.splits bool.splits
        dest!: collect) (metis paginate_kept(4) snd_conv)+
  show ?case
  proof (cases r)
    case Continue
    with "1.IH" [OF it [symmetric]] tc it "1.prems" show ?thesis
      by (subst fetch_loop.simps) simp
  next
    case (Break x)
    with tc it show ?thesis by (subst fetch_loop.simps) simp
  next
    case (Raise e)
    with tc it show ?thesis by (subst fetch_loop.simps) simp
  qed
qed


lemma iteration_observes_total:
  assumes "total_count s = JNull"
    and "iteration w max_pages batch_size start_time llb s = (outcome, s')"
    and "outcome = Continue \<or> outcome = Break Exhausted \<or> outcome = Break PageLimitReached"
    and "post w (page s) (payload s) = Response status_code (Some data)"
    and "search_results data = Inr sc"
  shows "dict_get sc ''totalCount'' JNull = Inr (total_count s')"
proof -
  have collect: "dict_get sc ''totalCount'' JNull = Inr (total_count t')"
    if "collect_edges batch_size data t = Inr (sc', t')" "total_count t = JNull" for t sc' t'
    using that assms(5)
    by (auto simp: collect_edges_def bind_err_def Let_def save_companies_to_json_def
        split: sum.splits if_splits)
  from assms(2,3,4) obtain n' sc' t where
    c: "collect_edges batch_size data (s\<lparr>posted := posted s @ [payload s], error_notifier := n'\<rparr>) = Inr (sc', t)"
    and p: "paginate w max_pages start_time llb sc' t = (outcome, s')"
    by (auto simp: iteration_def Let_def
        split: sum.splits prod.splits bool.splits)
  from collect [OF c] assms(1) have "dict_get sc ''totalCount'' JNull = Inr (total_count t)" by simp
  moreover from p have "total_count s' = total_count t"
    using paginate_kept(4) [of w max_pages start_time llb sc' t] by simp
  ultimately show ?thesis by simp
qed

text \<open>
  Claim C5. The total is set by the first page in which it is not null and is never
  changed afterwards. While the total is still \<open>None\<close>, a page that is processed sets it to
  what \<open>results.get("totalCount")\<close> gives for that page. From any state of the loop in which
  the total is set, whatever the later pages report, the dict returned at the end holds
  that total.
\<close>

theorem total_count_first_observation_wins:
  "(total_count s = JNull \<and>
    iteration w max_pages batch_size start_time llb s = (outcome, s') \<and>
    (outcome = Continue \<or> outcome = Break Exhausted \<or> outcome = Break PageLimitReached) \<and>
    post w (page s) (payload s) = Response status_code (Some data) \<and>
    search_results data = Inr sc
      \<longrightarrow> dict_get sc ''totalCount'' JNull = Inr (total_count s')) \<and>
   (total_count s \<noteq> JNull \<and>
    after_loop (fetch_loop w max_pages batch_size start_time llb s) = (Inr (x, r), t)
      \<longrightarrow> res_total_count r = total_count s)"
proof -
  have "res_total_count r = total_count s"
    if "total_count s \<noteq> JNull"
      "after_loop (fetch_loop w max_pages batch_size start_time llb s) = (Inr (x, r), t)"
  proof -
    from fetch_loop_total_count [OF that(1), of w max_pages batch_size start_time llb]
    have "total_count (snd (fetch_loop w max_pages batch_size start_time llb s)) = total_count s" .
    with that(2) show ?thesis
      by (auto simp: after_loop_def Let_def save_companies_to_json_def save_all_companies_to_json_def
          split: prod.splits sum.splits if_splits)
  qed
  with iteration_observes_total show ?thesis by blast
qed


theorem total_count_first_observation_wins_witness:
  "total_count (initial_state ex_notifier ex_query) = JNull \<and>
   fst (iteration three_pages 10 2 5000000 5000000 (initial_state ex_notifier ex_query)) = Continue \<and>
   post three_pages 1 (payload_of ex_query) = Response 200 (Some (page_body [JInt 1, JInt 2] (JInt 5) True ''c1'')) \<and>
   total_count (snd (iteration three_pages 10 2 5000000 5000000 (initial_state ex_notifier ex_query))) = JInt 5 \<and>
   post three_pages 2 (payload (snd (iteration three_pages 10 2 5000000 5000000 (initial_state ex_notifier ex_query))))
     = Response 200 (Some (page_body [JInt 3, JInt 4] (JInt 99) True ''c2'')) \<and>
   (\<exists>r t. after_loop (fetch_loop three_pages 10 2 5000000 5000000
              (snd (iteration three_pages 10 2 5000000 5000000 (initial_state ex_notifier ex_query))))
            = (Inr (Exhausted, r), t) \<and> res_total_count r = JInt 5)"
proof -
  let ?s0 = "initial_state ex_notifier ex_query"
  let ?it = "iteration three_pages 10 2 5000000 5000000 ?s0"
  let ?sc = "JObj [(''totalCount'', JInt 5), (''edges'', JArr [JInt 1, JInt 2]),
                   (''pageInfo'', JObj [(''hasNextPage'', JBool True), (''endCursor'', JStr ''c1'')])]"
  have a1: "total_count ?s0 = JNull" by (simp add: initial_state_def)
  have a2: "?it = (Continue, snd ?it)" by (rule prod_eqI) (code_simp, simp)
  have a3: "post three_pages (page ?s0) (payload ?s0) =
      Response 200 (Some (page_body [JInt 1, JInt 2] (JInt 5) True ''c1''))"
    by (simp add: three_pages_def initial_state_def)
  have a4: "search_results (page_body [JInt 1, JInt 2] (JInt 5) True ''c1'') = Inr ?sc"
    by (simp add: search_results_def page_body_def bind_err_def)
  from total_count_first_observation_wins
    [of ?s0 three_pages 10 2 5000000 5000000 Continue "snd ?it" 200
        "page_body [JInt 1, JInt 2] (JInt 5) True ''c1''" ?sc]
    a1 a2 a3 a4
  have b1: "total_count (snd ?it) = JInt 5" by simp
  have c1: "total_count (snd ?it) \<noteq> JNull" using b1 by simp
  have c2: "fst (after_loop (fetch_loop three_pages 10 2 5000000 5000000 (snd ?it))) =
      Inr (Exhausted, snd (projr (fst (after_loop (fetch_loop three_pages 10 2 5000000 5000000 (snd ?it))))))"
    by code_simp
  then have c3: "after_loop (fetch_loop three_pages 10 2 5000000 5000000 (snd ?it)) =
      (Inr (Exhausted, snd (projr (fst (after_loop (fetch_loop three_pages 10 2 5000000 5000000 (snd ?it)))))),
       snd (after_loop (fetch_loop three_pages 10 2 5000000 5000000 (snd ?it))))"
    by (simp add: prod_eq_iff)
  from total_count_first_observation_wins
    [of "snd ?it" three_pages 10 2 5000000 5000000 _ _ _ _ _ Exhausted
        "snd (projr (fst (after_loop (fetch_loop three_pages 10 2 5000000 5000000 (snd ?it)))))"
        "snd (after_loop (fetch_loop three_pages 10 2 5000000 5000000 (snd ?it)))"]
    c1 c3 b1
  have b2: "res_total_count (snd (projr (fst (after_loop (fetch_loop three_pages 10 2 5000000 5000000 (snd ?it))))))
      = JInt 5" by simp
  have a5: "post three_pages 2 (payload (snd ?it)) =
      Response 200 (Some (page_body [JInt 3, JInt 4] (JInt 99) True ''c2''))"
    by (simp add: three_pages_def)
  have a6: "fst ?it = Continue" using a2 by (metis fst_conv)
  have a7: "post three_pages 1 (payload_of ex_query) = Response 200 (Some (page_body [JInt 1, JInt 2] (JInt 5) True ''c1''))"
    by (simp add: three_pages_def)
  from a1 a6 a7 b1 a5 c3 b2 show ?thesis by blast
qed


section \<open>Requests and delays of a run\<close>

text \<open>One pass through the body posts one request; it moves to the next page and sleeps
  once when the loop goes on, and leaves the page number as it is otherwise.\<close>

lemma iteration_effects:
  assumes "iteration w max_pages batch_size start_time llb s = (r, s')"
  shows "posted s' = posted s @ [payload s] \<and>
         (r = Continue \<longrightarrow> page s' = page s + 1 \<and>
            sleeps s' = sleeps s @ [fst (apply_human_like_delay w (page s + 1) start_time llb)]) \<and>
         (r \<noteq> Continue \<longrightarrow> page s' = page s \<and> sleeps s' = sleeps s)"
proof -
  have pg: "posted t' = posted t \<and>
         (r = Continue \<longrightarrow> page t' = page t + 1 \<and>
            sleeps t' = sleeps t @ [fst (apply_human_like_delay w (page t + 1) start_time llb)]) \<and>
         (r \<noteq> Continue \<longrightarrow> page t' = page t \<and> sleeps t' = sleeps t)"
    if "paginate w max_pages start_time llb sc t = (r, t')" for sc t t'
    using that by (auto simp: paginate_def Let_def split: sum.splits if_splits)
  show ?thesis
  proof (cases "post w (page s) (payload s)")
    case ConnectionFailed
    with assms show ?thesis by (auto simp: iteration_def Let_def)
  next
    case (Response status_code parsed)
    show ?thesis
    proof (cases parsed)
      case None
      with Response assms show ?thesis by (auto simp: iteration_def Let_def)
    next
      case (Some data)
      show ?thesis
      proof (cases "check_and_notify_error (lib w) (today w) (Some status_code) data (error_notifier s)")
        case (Inl e)
        with Response Some assms show ?thesis by (auto simp: iteration_def Let_def)
      next
        case (Inr bn)
        obtain b n' where bn: "bn = (b, n')" by (cases bn)
        show ?thesis
        proof (cases b)
          case True
          with Response Some Inr bn assms show ?thesis
            by (auto simp: iteration_def Let_def split: sum.splits)
        next
          case False
          let ?s0 = "s\<lparr>posted := posted s @ [payload s], error_notifier := n'\<rparr>"
          show ?thesis
          proof (cases "collect_edges batch_size data ?s0")
            case (Inl e)
            with Response Some Inr bn False assms show ?thesis
              by (auto simp: iteration_def Let_def)
          next
            case c: (Inr p)
            obtain sc s1 where p: "p = (sc, s1)" by (cases p)
            note f = collect_edges_fields [OF c [unfolded p]]
            from Response Some Inr bn False c p assms
            have "paginate w max_pages start_time llb sc s1 = (r, s')"
              by (simp add: iteration_def Let_def)
            from pg [OF this] f show ?thesis by simp
          qed
        qed
      qed
    qed
  qed
qed

text \<open>Started with one page number more than requests posted, the loop ends with as many
  requests posted as its page number says, the last request counted also when it failed;
  and every delay was computed from the \<open>last_long_break\<close> the loop was started with.\<close>

lemma fetch_loop_counts:
  assumes "int (length (posted s)) + 1 = page s"
    and "sleeps s = map (\<lambda>k. fst (apply_human_like_delay w k start_time llb)) [2..page s]"
  shows "int (length (posted (snd (fetch_loop w max_pages batch_size start_time llb s)))) =
           page (snd (fetch_loop w max_pages batch_size start_time llb s)) \<and>
         sleeps (snd (fetch_loop w max_pages batch_size start_time llb s)) =
           map (\<lambda>k. fst (apply_human_like_delay w k start_time llb))
             [2..page (snd (fetch_loop w max_pages batch_size start_time llb s))]"
  using assms
proof (induction w max_pages batch_size start_time llb s rule: fetch_loop.induct)
  case (1 w max_pages batch_size start_time llb s)
  obtain r s' where it: "iteration w max_pages batch_size start_time llb s = (r, s')"
    by (cases "iteration w max_pages batch_size start_time llb s")
  note e = iteration_effects [OF it]
  show ?case
  proof (cases "r = Continue")
    case True
    have p1: "int (length (posted s')) + 1 = page s'" using e True "1.prems"(1) by simp
    have "2 \<le> page s + 1" using "1.prems"(1) by simp
    then have up: "[2..page s + 1] = [2..page s] @ [page s + 1]"
      by (simp add: upto_rec2)
    have p2: "sleeps s' = map (\<lambda>k. fst (apply_human_like_delay w k start_time llb)) [2..page s']"
      using e True "1.prems"(2) up by simp
    from "1.IH" [OF it [symmetric] True p1 p2] it True show ?thesis
      by (subst (1 2 3 4) fetch_loop.simps) simp
  next
    case False
    then have "snd (fetch_loop w max_pages batch_size start_time llb s) = s'"
      using it by (subst fetch_loop.simps) (cases r; simp)
    with e False "1.prems" show ?thesis by simp
  qed
qed

text \<open>The \<open>pages_fetched\<close> of the dict returned is the number of requests posted.\<close>

lemma pages_fetched_counts_requests:
  assumes "get_company_saved_search_results w n query max_pages batch_size = (Inr (x, r), s)"
  shows "res_pages_fetched r = int (length (posted s))"
proof -
  let ?l = "fetch_loop w max_pages batch_size (clock w 1) (clock w 1) (initial_state n query)"
  have "int (length (posted (snd ?l))) = page (snd ?l)"
    by (rule fetch_loop_counts [THEN conjunct1]) (simp_all add: initial_state_def)
  with assms show ?thesis
    by (auto simp: get_company_saved_search_results_def after_loop_def Let_def
         save_companies_to_json_def save_all_companies_to_json_def split: prod.splits sum.splits if_splits)
qed

text \<open>Every delay of a run is computed from the start of the run.\<close>

lemma delays_measure_from_start:
  "sleeps (snd (get_company_saved_search_results w n query max_pages batch_size)) =
     map (\<lambda>k. fst (apply_human_like_delay w k (clock w 1) (clock w 1)))
       [2..page (snd (get_company_saved_search_results w n query max_pages batch_size))]"
proof -
  let ?l = "fetch_loop w max_pages batch_size (clock w 1) (clock w 1) (initial_state n query)"
  have "sleeps (snd ?l) = map (\<lambda>k. fst (apply_human_like_delay w k (clock w 1) (clock w 1))) [2..page (snd ?l)]"
    by (rule fetch_loop_counts [THEN conjunct2]) (simp_all add: initial_state_def)
  then show ?thesis
    by (auto simp: get_company_saved_search_results_def after_loop_def Let_def
         save_companies_to_json_def save_all_companies_to_json_def split: prod.splits sum.splits if_splits)
qed

text \<open>A single delay is in the long range when three minutes have passed since the
  \<open>last_long_break\<close> it is given, and in the short range otherwise.\<close>

lemma delay_ranges:
  assumes "0 \<le> draw w k" "draw w k < 1"
  shows "(clock w k - last_long_break \<ge> 180000000 \<longrightarrow>
            180 \<le> fst (apply_human_like_delay w k start_time last_long_break) \<and>
            fst (apply_human_like_delay w k start_time last_long_break) < 300) \<and>
         (clock w k - last_long_break < 180000000 \<longrightarrow>
            2 \<le> fst (apply_human_like_delay w k start_time last_long_break) \<and>
            fst (apply_human_like_delay w k start_time last_long_break) < 8)"
  using assms by (auto simp: apply_human_like_delay_def uniform_def Let_def)


section \<open>An auth failure on a later page\<close>

text \<open>
  Claim C1, evaluated where it fails. Five pages are allowed, the first request is answered
  by a page of two companies that reports a next page, the second with status 401 and a
  JSON object. The loop is left through the error break, two requests were posted and one
  auth-failure message was handed to the messenger; the dict returned has
  \<open>pages_fetched = 2\<close>, although only the first page was fetched.
\<close>

theorem unauthorized_second_page_counts_two_pages:
  "fst (get_company_saved_search_results unauthorized_on_page_two ex_notifier ex_query 5 200) =
     Inr (ErrorBreak, \<lparr>res_total_count = JInt 9, res_companies = [JInt 1, JInt 2], res_pages_fetched = 2\<rparr>) \<and>
   length (posted (snd (get_company_saved_search_results unauthorized_on_page_two ex_notifier ex_query 5 200))) = 2 \<and>
   length (auth_notifications (error_notifier
     (snd (get_company_saved_search_results unauthorized_on_page_two ex_notifier ex_query 5 200)))) = 1 \<and>
   length (sent (error_notifier
     (snd (get_company_saved_search_results unauthorized_on_page_two ex_notifier ex_query 5 200)))) = 1"
proof -
  have "fst (get_company_saved_search_results unauthorized_on_page_two ex_notifier ex_query 5 200) =
     Inr (ErrorBreak, \<lparr>res_total_count = JInt 9, res_companies = [JInt 1, JInt 2], res_pages_fetched = 2\<rparr>)"
    by code_simp
  moreover have "length (posted (snd (get_company_saved_search_results unauthorized_on_page_two ex_notifier ex_query 5 200))) = 2"
    by code_simp
  moreover have "length (auth_notifications (error_notifier
     (snd (get_company_saved_search_results unauthorized_on_page_two ex_notifier ex_query 5 200)))) = 1"
    by code_simp
  moreover have "length (sent (error_notifier
     (snd (get_company_saved_search_results unauthorized_on_page_two ex_notifier ex_query 5 200)))) = 1"
    by code_simp
  ultimately show ?thesis by blast
qed


section \<open>The delays between pages\<close>

text \<open>
  Claim C6, evaluated where it fails. In the run \<open>slow_run\<close> the delay before page 2 is
  taken 200 seconds after the start: it is a long break of 180 seconds, and the method
  sets its own \<open>last_long_break\<close> to the time it read. The delay before page 3 is taken five
  seconds after that break ended, and it is a long break of 180 seconds again: the loop
  still measures from the start of the run.
\<close>

theorem long_break_reference_is_never_reset:
  "clock slow_run 3 - (clock slow_run 2 + 180 * 1000000) = 5 * 1000000 \<and>
   apply_human_like_delay slow_run 2 (clock slow_run 1) (clock slow_run 1) = (180, clock slow_run 2) \<and>
   sleeps (snd (get_company_saved_search_results slow_run ex_notifier ex_query 5 200)) = [180, 180]"
proof -
  have "clock slow_run 3 - (clock slow_run 2 + 180 * 1000000) = 5 * 1000000"
    by (simp add: slow_run_def)
  moreover have "apply_human_like_delay slow_run 2 (clock slow_run 1) (clock slow_run 1) = (180, clock slow_run 2)"
    by (simp add: apply_human_like_delay_def slow_run_def uniform_def)
  moreover have "sleeps (snd (get_company_saved_search_results slow_run ex_notifier ex_query 5 200)) = [180, 180]"
    by code_simp
  ultimately show ?thesis by blast
qed


section \<open>The status of a response\<close>

text \<open>
  Claim C7 as stated does not hold. A request answered with status 401 raises nothing: the
  loop is left and the method returns what it has. A request answered with status 500 and
  the body of a page raises nothing either: the page is taken as fetched.
\<close>

theorem auth_status_raises_nothing_counterexample:
  "fst (get_company_saved_search_results always_unauthorized ex_notifier ex_query 5 200) =
     Inr (ErrorBreak, \<lparr>res_total_count = JNull, res_companies = [], res_pages_fetched = 1\<rparr>) \<and>
   fst (get_company_saved_search_results server_error_with_page ex_notifier ex_query 5 200) =
     Inr (Exhausted, \<lparr>res_total_count = JInt 1, res_companies = [JInt 1], res_pages_fetched = 1\<rparr>)"
proof -
  have "fst (get_company_saved_search_results always_unauthorized ex_notifier ex_query 5 200) =
     Inr (ErrorBreak, \<lparr>res_total_count = JNull, res_companies = [], res_pages_fetched = 1\<rparr>)"
    by code_simp
  moreover have "fst (get_company_saved_search_results server_error_with_page ex_notifier ex_query 5 200) =
     Inr (Exhausted, \<lparr>res_total_count = JInt 1, res_companies = [JInt 1], res_pages_fetched = 1\<rparr>)"
    by code_simp
  ultimately show ?thesis by blast
qed

lemma iteration_auth_status:
  assumes "status_code = 401 \<or> status_code = 403"
    and "post w (page s) (payload s) = Response status_code (Some (JObj kvs))"
  shows "iteration w max_pages batch_size start_time llb s =
     (Break ErrorBreak,
      s\<lparr>posted := posted s @ [payload s],
        error_notifier := snd (notify_auth_failure (today w)
           (Some (''HTTP '' @ int_str status_code @ '': Authentication/authorization failed''))
           (error_notifier s))\<rparr>)"
  using assms
  by (auto simp: iteration_def check_and_notify_error_def Let_def split: option.splits)

text \<open>
  Claim C7, amended. For a response to a page fetch whose body is a JSON object: status 401
  or 403 takes the auth-failure path of the notifier (one message to the messenger when
  there is one) and is not retried; no exception is raised, the loop is left through the
  error break and the method returns what was fetched before.
\<close>

theorem auth_status_stops_the_loop:
  assumes "status_code = 401 \<or> status_code = 403"
    and "post w (page s) (payload s) = Response status_code (Some (JObj kvs))"
  shows "let s' = s\<lparr>posted := posted s @ [payload s],
                     error_notifier := snd (notify_auth_failure (today w)
                        (Some (''HTTP '' @ int_str status_code @ '': Authentication/authorization failed''))
                        (error_notifier s))\<rparr>
         in fetch_loop w max_pages batch_size start_time llb s = (Inr ErrorBreak, s') \<and>
            fst (after_loop (fetch_loop w max_pages batch_size start_time llb s)) =
              Inr (ErrorBreak, \<lparr>res_total_count = total_count s, res_companies = all_edges s,
                                res_pages_fetched = page s\<rparr>) \<and>
            (case messenger (error_notifier s) of
               None \<Rightarrow> sent (error_notifier s') = sent (error_notifier s)
             | Some send \<Rightarrow>
                 sent (error_notifier s') = sent (error_notifier s) @
                   [\<lparr>thread = GLUE_THREAD_ID,
                     body = auth_failure_message
                       (Some (''HTTP '' @ int_str status_code @ '': Authentication/authorization failed'')),
                     unique_by = ''harmonic_auth_error_'' @ today w\<rparr>])"
proof -
  note it = iteration_auth_status [OF assms, of max_pages batch_size start_time llb]
  have loop: "fetch_loop w max_pages batch_size start_time llb s =
     (Inr ErrorBreak,
      s\<lparr>posted := posted s @ [payload s],
        error_notifier := snd (notify_auth_failure (today w)
           (Some (''HTTP '' @ int_str status_code @ '': Authentication/authorization failed''))
           (error_notifier s))\<rparr>)"
    by (subst fetch_loop.simps) (simp add: it)
  show ?thesis
    unfolding Let_def loop
    by (simp add: after_loop_def Let_def save_companies_to_json_def save_all_companies_to_json_def
         notify_auth_failure_def split: option.splits)
qed

theorem auth_status_stops_the_loop_witness:
  "((401::int) = 401 \<or> (401::int) = 403) \<and>
   post always_unauthorized (page (initial_state ex_notifier ex_query)) (payload (initial_state ex_notifier ex_query))
     = Response 401 (Some (JObj [(''message'', JStr ''Unauthorized'')])) \<and>
   fst (fetch_loop always_unauthorized 5 200 5000000 5000000 (initial_state ex_notifier ex_query)) = Inr ErrorBreak \<and>
   posted (snd (fetch_loop always_unauthorized 5 200 5000000 5000000 (initial_state ex_notifier ex_query)))
     = [payload_of ex_query] \<and>
   map unique_by (sent (error_notifier
      (snd (fetch_loop always_unauthorized 5 200 5000000 5000000 (initial_state ex_notifier ex_query)))))
     = [''harmonic_auth_error_2024-05-01'']"
proof -
  have h1: "(401::int) = 401 \<or> (401::int) = 403" by simp
  have h2: "post always_unauthorized (page (initial_state ex_notifier ex_query)) (payload (initial_state ex_notifier ex_query))
     = Response 401 (Some (JObj [(''message'', JStr ''Unauthorized'')]))"
    by (simp add: always_unauthorized_def)
  from auth_status_stops_the_loop [OF h1 h2, of 5 200 5000000 5000000] h1 h2
  show ?thesis
    by (simp add: Let_def initial_state_def ex_notifier_def always_unauthorized_def)
qed


section \<open>Fields missing from a page\<close>

text \<open>
  Claim C2 as stated does not hold. A response that passes the error check and whose
  results have no \<open>edges\<close> is not taken as a page without companies: the method raises
  \<open>KeyError\<close>.
\<close>

theorem missing_edges_raise_counterexample:
  "fst (get_company_saved_search_results page_without_edges ex_notifier ex_query 5 200) = Inl KeyError"
  by code_simp

lemma collect_edges_raises:
  assumes "page_fields data = Inl e"
  shows "(\<exists>sc t. collect_edges batch_size data s = Inr (sc, t) \<and>
            (case subscript sc ''pageInfo'' of Inl e' \<Rightarrow> e' = e
             | Inr page_info \<Rightarrow> subscript page_info ''hasNextPage'' = Inl e)) \<or>
         collect_edges batch_size data s = Inl e"
proof (cases "search_results data")
  case (Inl e')
  with assms show ?thesis by (simp add: page_fields_def collect_edges_def bind_err_def)
next
  case sc: (Inr sc)
  show ?thesis
  proof (cases "subscript sc ''edges''")
    case (Inl e')
    with assms sc show ?thesis by (simp add: page_fields_def collect_edges_def bind_err_def)
  next
    case edges: (Inr edges)
    then obtain kvs where kvs: "sc = JObj kvs" by (cases sc) auto
    show ?thesis
    proof (cases "iterate edges")
      case (Inl e')
      with assms sc edges show ?thesis by (simp add: page_fields_def collect_edges_def bind_err_def)
    next
      case es: (Inr es)
      have "\<exists>t. collect_edges batch_size data s = Inr (sc, t)"
        using sc edges es by (auto simp: collect_edges_def bind_err_def Let_def kvs split: option.splits)
      moreover have "case subscript sc ''pageInfo'' of Inl e' \<Rightarrow> e' = e
             | Inr page_info \<Rightarrow> subscript page_info ''hasNextPage'' = Inl e"
        using assms sc edges es
        by (auto simp: page_fields_def bind_err_def split: sum.splits)
      ultimately show ?thesis by blast
    qed
  qed
qed

lemma iteration_raises:
  assumes "post w (page s) (payload s) = Response status_code (Some data)"
    and "check_and_notify_error (lib w) (today w) (Some status_code) data (error_notifier s) = Inr (False, n')"
    and "page_fields data = Inl e"
  shows "fst (iteration w max_pages batch_size start_time llb s) = Raise e"
proof -
  let ?s0 = "s\<lparr>posted := posted s @ [payload s], error_notifier := n'\<rparr>"
  from collect_edges_raises [OF assms(3), of batch_size ?s0]
  consider (late) sc t where "collect_edges batch_size data ?s0 = Inr (sc, t)"
      "case subscript sc ''pageInfo'' of Inl e' \<Rightarrow> e' = e
       | Inr page_info \<Rightarrow> subscript page_info ''hasNextPage'' = Inl e"
    | (early) "collect_edges batch_size data ?s0 = Inl e"
    by blast
  then show ?thesis
  proof cases
    case late
    then show ?thesis using assms(1,2)
      by (auto simp: iteration_def Let_def paginate_def split: sum.splits)
  next
    case early
    then show ?thesis using assms(1,2)
      by (simp add: iteration_def Let_def)
  qed
qed

lemma iteration_last_page:
  assumes "post w (page s) (payload s) = Response status_code (Some data)"
    and "check_and_notify_error (lib w) (today w) (Some status_code) data (error_notifier s) = Inr (False, n')"
    and "page_fields data = Inr (sc, es, page_info, h)" and "\<not> truthy h"
  shows "fst (iteration w max_pages batch_size start_time llb s) = Break Exhausted \<and>
         all_edges (snd (iteration w max_pages batch_size start_time llb s)) = all_edges s @ es \<and>
         (total_count s = JNull \<longrightarrow>
            dict_get sc ''totalCount'' JNull =
              Inr (total_count (snd (iteration w max_pages batch_size start_time llb s))))"
proof -
  from assms(3) obtain edges where f: "search_results data = Inr sc" "subscript sc ''edges'' = Inr edges"
    "iterate edges = Inr es" "subscript sc ''pageInfo'' = Inr page_info"
    "subscript page_info ''hasNextPage'' = Inr h"
    by (auto simp: page_fields_def bind_err_def split: sum.splits)
  from f(2) obtain kvs where kvs: "sc = JObj kvs" by (cases sc) auto
  show ?thesis
    using assms(1,2,4) f
    by (auto simp: iteration_def Let_def collect_edges_def paginate_def bind_err_def kvs
          save_companies_to_json_def split: option.splits)
qed

text \<open>
  Claim C2, amended. For a response that passes the error check, the loop reads
  \<open>data.getSavedSearch.results\<close>, its \<open>edges\<close>, its \<open>pageInfo\<close> and the \<open>hasNextPage\<close> of
  that by subscript: where one of them is missing the page fetch raises (\<open>KeyError\<close> for a
  key that a dict lacks). Only \<open>totalCount\<close> may be missing: the total then stays \<open>None\<close>
  and the page is processed.
\<close>

theorem missing_page_fields_raise:
  assumes "post w (page s) (payload s) = Response status_code (Some data)"
    and "check_and_notify_error (lib w) (today w) (Some status_code) data (error_notifier s) = Inr (False, n')"
  shows "(page_fields data = Inl e \<longrightarrow>
            fst (iteration w max_pages batch_size start_time llb s) = Raise e) \<and>
         (search_results data = Inr (JObj kvs) \<and> map_of kvs ''edges'' = None \<longrightarrow>
            fst (iteration w max_pages batch_size start_time llb s) = Raise KeyError) \<and>
         (search_results data = Inr (JObj kvs) \<and> map_of kvs ''edges'' = Some (JArr es) \<and>
          map_of kvs ''pageInfo'' = None \<longrightarrow>
            fst (iteration w max_pages batch_size start_time llb s) = Raise KeyError) \<and>
         (search_results data = Inr (JObj kvs) \<and> map_of kvs ''edges'' = Some (JArr es) \<and>
          map_of kvs ''pageInfo'' = Some (JObj pkvs) \<and> map_of pkvs ''hasNextPage'' = None \<longrightarrow>
            fst (iteration w max_pages batch_size start_time llb s) = Raise KeyError) \<and>
         (search_results data = Inr (JObj kvs) \<and> map_of kvs ''edges'' = Some (JArr es) \<and>
          map_of kvs ''pageInfo'' = Some (JObj pkvs) \<and> map_of pkvs ''hasNextPage'' = Some h \<and> \<not> truthy h \<and>
          map_of kvs ''totalCount'' = None \<and> total_count s = JNull \<longrightarrow>
            fst (iteration w max_pages batch_size start_time llb s) = Break Exhausted \<and>
            all_edges (snd (iteration w max_pages batch_size start_time llb s)) = all_edges s @ es \<and>
            total_count (snd (iteration w max_pages batch_size start_time llb s)) = JNull)"
proof -
  note r = iteration_raises [OF assms, of _ max_pages batch_size start_time llb]
  have c1: "page_fields data = Inl e \<longrightarrow> fst (iteration w max_pages batch_size start_time llb s) = Raise e"
    using r by blast
  have c2: "fst (iteration w max_pages batch_size start_time llb s) = Raise KeyError"
    if "search_results data = Inr (JObj kvs)" "map_of kvs ''edges'' = None"
    using that by (intro r) (simp add: page_fields_def bind_err_def)
  have c3: "fst (iteration w max_pages batch_size start_time llb s) = Raise KeyError"
    if "search_results data = Inr (JObj kvs)" "map_of kvs ''edges'' = Some (JArr es)"
      "map_of kvs ''pageInfo'' = None"
    using that by (intro r) (simp add: page_fields_def bind_err_def)
  have c4: "fst (iteration w max_pages batch_size start_time llb s) = Raise KeyError"
    if "search_results data = Inr (JObj kvs)" "map_of kvs ''edges'' = Some (JArr es)"
      "map_of kvs ''pageInfo'' = Some (JObj pkvs)" "map_of pkvs ''hasNextPage'' = None"
    using that by (intro r) (simp add: page_fields_def bind_err_def)
  have c5: "fst (iteration w max_pages batch_size start_time llb s) = Break Exhausted \<and>
            all_edges (snd (iteration w max_pages batch_size start_time llb s)) = all_edges s @ es \<and>
            total_count (snd (iteration w max_pages batch_size start_time llb s)) = JNull"
    if "search_results data = Inr (JObj kvs)" "map_of kvs ''edges'' = Some (JArr es)"
      "map_of kvs ''pageInfo'' = Some (JObj pkvs)" "map_of pkvs ''hasNextPage'' = Some h" "\<not> truthy h"
      "map_of kvs ''totalCount'' = None" "total_count s = JNull"
  proof -
    have pf: "page_fields data = Inr (JObj kvs, es, JObj pkvs, h)"
      using that by (simp add: page_fields_def bind_err_def)
    from iteration_last_page [OF assms pf that(5), of max_pages batch_size start_time llb] that(6,7)
    show ?thesis by simp
  qed
  from c1 c2 c3 c4 c5 show ?thesis by blast
qed

theorem missing_page_fields_raise_witness:
  "post page_without_edges (page (initial_state ex_notifier ex_query)) (payload (initial_state ex_notifier ex_query))
     = Response 200 (Some body_without_edges) \<and>
   check_and_notify_error (lib page_without_edges) (today page_without_edges) (Some 200) body_without_edges
       (error_notifier (initial_state ex_notifier ex_query)) = Inr (False, ex_notifier) \<and>
   page_fields body_without_edges = Inl KeyError \<and>
   fst (iteration page_without_edges 5 200 5000000 5000000 (initial_state ex_notifier ex_query)) = Raise KeyError \<and>
   post page_without_total (page (initial_state ex_notifier ex_query)) (payload (initial_state ex_notifier ex_query))
     = Response 200 (Some body_without_total) \<and>
   check_and_notify_error (lib page_without_total) (today page_without_total) (Some 200) body_without_total
       (error_notifier (initial_state ex_notifier ex_query)) = Inr (False, ex_notifier) \<and>
   fst (iteration page_without_total 5 200 5000000 5000000 (initial_state ex_notifier ex_query)) = Break Exhausted \<and>
   all_edges (snd (iteration page_without_total 5 200 5000000 5000000 (initial_state ex_notifier ex_query))) = [JInt 1] \<and>
   total_count (snd (iteration page_without_total 5 200 5000000 5000000 (initial_state ex_notifier ex_query))) = JNull"
proof -
  let ?s0 = "initial_state ex_notifier ex_query"
  have p1: "post page_without_edges (page ?s0) (payload ?s0) = Response 200 (Some body_without_edges)"
    by (simp add: page_without_edges_def)
  have k1: "check_and_notify_error (lib page_without_edges) (today page_without_edges) (Some 200)
       body_without_edges (error_notifier ?s0) = Inr (False, ex_notifier)"
    by (simp add: check_and_notify_error_def body_without_edges_def bind_err_def initial_state_def)
  have f1: "page_fields body_without_edges = Inl KeyError"
    by (simp add: page_fields_def search_results_def body_without_edges_def bind_err_def)
  have p2: "post page_without_total (page ?s0) (payload ?s0) = Response 200 (Some body_without_total)"
    by (simp add: page_without_total_def)
  have k2: "check_and_notify_error (lib page_without_total) (today page_without_total) (Some 200)
       body_without_total (error_notifier ?s0) = Inr (False, ex_notifier)"
    by (simp add: check_and_notify_error_def body_without_total_def bind_err_def initial_state_def)
  have sr: "search_results body_without_total =
      Inr (JObj [(''edges'', JArr [JInt 1]),
                 (''pageInfo'', JObj [(''hasNextPage'', JBool False), (''endCursor'', JNull)])])"
    by (simp add: search_results_def body_without_total_def bind_err_def)
  have t0: "total_count ?s0 = JNull" "all_edges ?s0 = []" by (simp_all add: initial_state_def)
  from missing_page_fields_raise [OF p1 k1, of KeyError 5 200 5000000 5000000] f1
  have r1: "fst (iteration page_without_edges 5 200 5000000 5000000 ?s0) = Raise KeyError"
    by blast
  from missing_page_fields_raise [OF p2 k2, of _ 5 200 5000000 5000000
      "[(''edges'', JArr [JInt 1]), (''pageInfo'', JObj [(''hasNextPage'', JBool False), (''endCursor'', JNull)])]"
      "[JInt 1]" "[(''hasNextPage'', JBool False), (''endCursor'', JNull)]" "JBool False"] sr t0
  have r2: "fst (iteration page_without_total 5 200 5000000 5000000 ?s0) = Break Exhausted \<and>
      all_edges (snd (iteration page_without_total 5 200 5000000 5000000 ?s0)) = [JInt 1] \<and>
      total_count (snd (iteration page_without_total 5 200 5000000 5000000 ?s0)) = JNull"
    by simp
  from p1 k1 f1 r1 p2 k2 r2 show ?thesis by blast
qed


section \<open>GraphQL errors in the detail clients\<close>

text \<open>
  Claim C8 as stated does not hold. For a body with a top-level \<open>errors\<close> list the
  highlights operation raises nothing: it returns the empty list.
\<close>

theorem highlights_errors_give_empty_list_counterexample:
  "fst (get_person_highlights failing_service 36601930 ex_notifier) = Inr (JArr [])"
  by code_simp

lemma key_present: "map_of kvs k = Some x \<Longrightarrow> k \<in> fst ` set kvs"
  by (metis domI dom_map_of_conv_image_fst)

lemma make_request_with_errors:
  assumes "respond v operation_name variables = Response status_code (Some (JObj kvs))"
    and "\<not> (400 \<le> status_code \<and> status_code < 600)"
    and "map_of kvs ''errors'' = Some errs"
  shows "fst (make_request v operation_name variables n) = Inr (JObj kvs)"
proof -
  from assms(3) have "''errors'' \<in> fst ` set kvs" by (rule key_present)
  with assms show ?thesis
    by (auto simp: make_request_def Let_def split: if_splits)
qed

lemma raise_on_errors_present:
  assumes "map_of kvs ''errors'' = Some errs"
  shows "raise_on_errors L (JObj kvs) = Inl (Exception (''GraphQL errors: '' @ py_str L errs))"
proof -
  from assms have "''errors'' \<in> fst ` set kvs" by (rule key_present)
  with assms show ?thesis by (simp add: raise_on_errors_def bind_err_def)
qed

text \<open>
  Claim C8, amended. When the parsed body of a response that \<open>raise_for_status\<close> lets pass
  is a JSON object with a top-level \<open>errors\<close> key, the education, the experience and the
  search operations raise \<open>Exception\<close> to their caller and return no default value; the
  profile-header operation \<open>get_person_highlights\<close> returns the empty list.
\<close>

theorem errors_fatal_except_highlights:
  assumes "\<forall>operation_name variables. respond v operation_name variables = Response status_code (Some (JObj kvs))"
    and "\<not> (400 \<le> status_code \<and> status_code < 600)"
    and "map_of kvs ''errors'' = Some errs"
  shows "fst (get_education v person_id n) = Inl (Exception (''GraphQL errors: '' @ py_str (pyl v) errs)) \<and>
         fst (get_experience v person_id n) = Inl (Exception (''GraphQL errors: '' @ py_str (pyl v) errs)) \<and>
         fst (get_person_education v person_id n) = Inl (Exception (''GraphQL errors: '' @ py_str (pyl v) errs)) \<and>
         fst (get_person_experience v person_id n) = Inl (Exception (''GraphQL errors: '' @ py_str (pyl v) errs)) \<and>
         fst (search v query n) = Inl (Exception (''GraphQL errors: '' @ py_str (pyl v) errs)) \<and>
         fst (get_person_highlights v person_id n) = Inr (JArr [])"
proof -
  have mr: "fst (make_request v operation_name variables n) = Inr (JObj kvs)" for operation_name variables
    using make_request_with_errors [OF _ assms(2,3)] assms(1) by blast
  have keys: "''errors'' \<in> fst ` set kvs"
    using assms(3) by (rule key_present)
  note roe = raise_on_errors_present [OF assms(3), of "pyl v"]
  have "fst (get_education v person_id n) = Inl (Exception (''GraphQL errors: '' @ py_str (pyl v) errs))"
    using mr [of "''GetPersonEducation''" "id_variables person_id"]
    by (auto simp: get_education_def roe bind_err_def split: prod.splits sum.splits)
  moreover have "fst (get_experience v person_id n) = Inl (Exception (''GraphQL errors: '' @ py_str (pyl v) errs))"
    using mr [of "''GetPersonExperience''" "id_variables person_id"]
    by (auto simp: get_experience_def roe bind_err_def split: prod.splits sum.splits)
  moreover have "fst (get_person_education v person_id n) = Inl (Exception (''GraphQL errors: '' @ py_str (pyl v) errs))"
    using mr [of "''GetPersonEducation''" "id_variables person_id"]
    by (auto simp: get_person_education_def roe bind_err_def split: prod.splits sum.splits)
  moreover have "fst (get_person_experience v person_id n) = Inl (Exception (''GraphQL errors: '' @ py_str (pyl v) errs))"
    using mr [of "''GetPersonExperience''" "id_variables person_id"]
    by (auto simp: get_person_experience_def roe bind_err_def split: prod.splits sum.splits)
  moreover have "fst (search v query n) = Inl (Exception (''GraphQL errors: '' @ py_str (pyl v) errs))"
    using mr [of "''TypeaheadSearchWithInvestors''" "JObj [(''query'', JStr query)]"]
    by (auto simp: search_def roe bind_err_def split: prod.splits sum.splits)
  moreover have "fst (get_person_highlights v person_id n) = Inr (JArr [])"
  proof -
    have present: "py_in ''errors'' (JObj kvs) = Inr True" using keys by simp
    obtain r n1 where m: "make_request v ''GetPersonProfileHeader'' (id_variables person_id) n = (r, n1)"
      by (cases "make_request v ''GetPersonProfileHeader'' (id_variables person_id) n")
    with mr [of "''GetPersonProfileHeader''" "id_variables person_id"] have "r = Inr (JObj kvs)" by simp
    with m present show ?thesis by (simp add: get_person_highlights_def bind_err_def)
  qed
  ultimately show ?thesis by blast
qed

theorem errors_fatal_except_highlights_witness:
  "(\<forall>operation_name variables. respond failing_service operation_name variables = Response 200 (Some (JObj graphql_errors))) \<and>
   \<not> (400 \<le> (200::int) \<and> (200::int) < 600) \<and>
   map_of graphql_errors ''errors'' = Some (JArr [JObj [(''message'', JStr ''Person not found'')]]) \<and>
   fst (get_education failing_service 36601930 ex_notifier) = Inl (Exception ''GraphQL errors: ?'') \<and>
   fst (get_experience failing_service 36601930 ex_notifier) = Inl (Exception ''GraphQL errors: ?'') \<and>
   fst (search failing_service ''Daniel Sun'' ex_notifier) = Inl (Exception ''GraphQL errors: ?'') \<and>
   fst (get_person_highlights failing_service 36601930 ex_notifier) = Inr (JArr [])"
proof -
  have h1: "\<forall>operation_name variables. respond failing_service operation_name variables =
      Response 200 (Some (JObj graphql_errors))"
    by (simp add: failing_service_def)
  have h2: "\<not> (400 \<le> (200::int) \<and> (200::int) < 600)" by simp
  have h3: "map_of graphql_errors ''errors'' = Some (JArr [JObj [(''message'', JStr ''Person not found'')]])"
    by (simp add: graphql_errors_def)
  have p: "py_str (pyl failing_service) (JArr [JObj [(''message'', JStr ''Person not found'')]]) = ''?''"
    by (simp add: failing_service_def ex_lib_def)
  from errors_fatal_except_highlights [OF h1 h2 h3, of 36601930 ex_notifier "''Daniel Sun''"] h1 h2 h3 p
  show ?thesis by simp
qed


end
